theory Spec2Isabelle
  imports Main
begin

section \<open>The canvas-button-response plugin (jspsych-canvas-button-response.js)\<close>

text \<open>
  The file defines one function, \<^verbatim>\<open>plugin.trial(display_element, trial)\<close>, and two
  closures it creates, \<^verbatim>\<open>after_response\<close> and \<^verbatim>\<open>end_trial\<close>. The closures share the
  variables \<^verbatim>\<open>trial\<close>, \<^verbatim>\<open>start_time\<close>, \<^verbatim>\<open>response\<close> and \<^verbatim>\<open>display_element\<close>; here
  these are the fields of one state record that every operation takes and returns.
  A JavaScript exception is a value: each operation returns \<open>Some TypeError\<close> next to
  the state reached when the exception left it, so that what was written before the
  throw stays visible.
\<close>

subsection \<open>JavaScript values and strings\<close>

datatype js_value = Null | Num int | Str string

datatype js_error = TypeError

definition digit_char :: "nat \<Rightarrow> char" where
  "digit_char d = ''0123456789'' ! d"

text \<open>The decimal text of a number, as \<^verbatim>\<open>'' + i\<close> produces it for an integer.\<close>

function show_nat :: "nat \<Rightarrow> string" where
  "show_nat n = (if n < 10 then [digit_char n] else show_nat (n div 10) @ [digit_char (n mod 10)])"
  by pat_completeness auto
termination
  by (relation "measure id") auto

declare show_nat.simps [simp del]

definition show_int :: "int \<Rightarrow> string" where
  "show_int k = (if k < 0 then CHR ''-'' # show_nat (nat (- k)) else show_nat (nat k))"

text \<open>
  \<^verbatim>\<open>String.prototype.replace\<close> with a string as replacement expands the patterns
  \<^verbatim>\<open>$$\<close>, \<^verbatim>\<open>$&\<close>, \<^verbatim>\<open>$`\<close> and \<^verbatim>\<open>$'\<close> in it (the language's GetSubstitution); the regular
  expression \<^verbatim>\<open>/%choice%/g\<close> has no capture group, so \<^verbatim>\<open>$1\<close> .. \<^verbatim>\<open>$99\<close> and \<^verbatim>\<open>$<\<close> stay
  as they are. The arguments are the matched text, the text of the subject before the
  match, the text after it, and the replacement.
\<close>

fun get_substitution :: "string \<Rightarrow> string \<Rightarrow> string \<Rightarrow> string \<Rightarrow> string" where
  "get_substitution m pre post [] = []"
| "get_substitution m pre post [c] = [c]"
| "get_substitution m pre post (c # d # r) =
     (if c = CHR ''$'' then
        (if d = CHR ''$'' then CHR ''$'' # get_substitution m pre post r
         else if d = CHR ''&'' then m @ get_substitution m pre post r
         else if d = CHR 0x60 then pre @ get_substitution m pre post r
         else if d = CHR 0x27 then post @ get_substitution m pre post r
         else c # get_substitution m pre post (d # r))
      else c # get_substitution m pre post (d # r))"

text \<open>
  A global replace of a literal, non-empty pattern: the subject is scanned from the
  left, every match is replaced by the expanded replacement and the scan goes on after
  the match. \<open>pre\<close> is the part of the subject already scanned.
\<close>

function replace_from :: "string \<Rightarrow> string \<Rightarrow> string \<Rightarrow> string \<Rightarrow> string" where
  "replace_from pat repl pre rest =
     (if rest = [] then []
      else if pat \<noteq> [] \<and> take (length pat) rest = pat
        then get_substitution pat pre (drop (length pat) rest) repl
               @ replace_from pat repl (pre @ pat) (drop (length pat) rest)
      else hd rest # replace_from pat repl (pre @ [hd rest]) (tl rest))"
  by pat_completeness auto
termination
  by (relation "measure (\<lambda>(pat, repl, pre, rest). length rest)") auto

declare replace_from.simps [simp del]

text \<open>\<^verbatim>\<open>buttons[i].replace(/%choice%/g, trial.choices[i])\<close> (line 161).\<close>

definition replace_choice :: "string \<Rightarrow> string \<Rightarrow> string" where
  "replace_choice template label = replace_from ''%choice%'' label [] template"

text \<open>
  What the claims call substitution: every occurrence of the pattern replaced by the
  label itself, character for character. It is the reference \<open>replace_choice\<close> is
  compared with, not a translation of source code.
\<close>

function literal_replace :: "string \<Rightarrow> string \<Rightarrow> string \<Rightarrow> string" where
  "literal_replace pat label rest =
     (if rest = [] then []
      else if pat \<noteq> [] \<and> take (length pat) rest = pat
        then label @ literal_replace pat label (drop (length pat) rest)
      else hd rest # literal_replace pat label (tl rest))"
  by pat_completeness auto
termination
  by (relation "measure (\<lambda>(pat, label, rest). length rest)") auto

declare literal_replace.simps [simp del]

subsection \<open>The trial object\<close>

text \<open>
  \<^verbatim>\<open>button_html\<close> is one template for all buttons or an array with one per choice
  (\<^verbatim>\<open>Array.isArray\<close>, line 147).
\<close>

datatype button_html = Shared string | PerChoice "string list"

text \<open>
  The parameters of \<^verbatim>\<open>plugin.info\<close>. \<open>None\<close> stands for \<^verbatim>\<open>undefined\<close> in \<open>stimulus\<close> and
  \<open>choices\<close> (their declared default), for \<^verbatim>\<open>false\<close> in \<open>canvasId\<close> and for \<^verbatim>\<open>null\<close> in
  \<open>canvasHTML\<close>, \<open>prompt\<close> and the two durations. The drawing function is a function
  from the canvas id to whatever it returns, of type \<open>'p\<close>.
\<close>

record 'p trial =
  stimulus :: "(string \<Rightarrow> 'p) option"
  canvasHTML :: "string option"
  canvasId :: "string option"
  canvasWidth :: int
  canvasHeight :: int
  prompt :: "string option"
  choices :: "string list option"
  button_html :: button_html
  stimulus_duration :: "int option"
  trial_duration :: "int option"
  response_ends_trial :: bool
  margin_vertical :: string
  margin_horizontal :: string

text \<open>The variable \<^verbatim>\<open>response\<close> (lines 184-188).\<close>

record 'p response =
  rt :: js_value
  button :: js_value
  stimulus_properties :: "'p option"

text \<open>
  The object \<^verbatim>\<open>trial_data\<close> of \<^verbatim>\<open>end_trial\<close> (lines 222-226), with its three keys
  \<^verbatim>\<open>rt\<close>, \<^verbatim>\<open>stimulus\<close> and \<^verbatim>\<open>button_pressed\<close>; the first two carry the prefix \<open>td_\<close>
  because \<open>rt\<close> and \<open>stimulus\<close> already name fields above.
\<close>

record 'p trial_data =
  td_rt :: js_value
  td_stimulus :: "(string \<Rightarrow> 'p) option"
  td_button_pressed :: js_value

subsection \<open>The document\<close>

text \<open>
  An element of the page that lies outside \<^verbatim>\<open>display_element\<close>. \<open>matches_btn_selector\<close>
  says whether the selector \<^verbatim>\<open>.jspsych-canvas-button-response-button button\<close> of line 204
  selects it; \<open>disabled\<close> is its attribute of that name.
\<close>

record foreign_el =
  el_name :: string
  matches_btn_selector :: bool
  disabled :: "string option"

text \<open>
  \<^verbatim>\<open>display_element\<close> and the rest of the document.
  \<^item> \<open>innerHTML\<close>: the markup last assigned to \<^verbatim>\<open>display_element.innerHTML\<close>;
  \<^item> \<open>stimulus_div\<close>: the \<^verbatim>\<open>className\<close> and \<^verbatim>\<open>style.visibility\<close> of the element
    \<^verbatim>\<open>#jspsych-canvas-button-response-stimulus\<close> inside \<^verbatim>\<open>display_element\<close>, \<open>None\<close> when
    \<^verbatim>\<open>querySelector\<close> finds none;
  \<^item> \<open>listeners\<close>: the indices \<open>i\<close> whose element
    \<^verbatim>\<open>#jspsych-canvas-button-response-button-i\<close> is inside \<^verbatim>\<open>display_element\<close> and has
    the click listener of line 177;
  \<^item> \<open>own_btns_disabled\<close>: whether the loop of lines 205-208 has set \<^verbatim>\<open>disabled\<close> on the
    selected elements that are inside \<^verbatim>\<open>display_element\<close>;
  \<^item> \<open>content_is_button\<close>: for each button element \<open>i\<close> of the display, whether what it
    holds is a \<^verbatim>\<open>button\<close> element, which the selector of line 204 selects and on which
    a click on element \<open>i\<close> lands;
  \<^item> \<open>foreign\<close>: the elements outside \<^verbatim>\<open>display_element\<close>.

  Assigning \<^verbatim>\<open>innerHTML\<close> replaces the subtree: the elements it held, their listeners
  and attributes are gone. The markup that \<^verbatim>\<open>plugin.trial\<close> builds always holds the
  stimulus element; the empty markup of \<^verbatim>\<open>end_trial\<close> holds nothing. The second argument
  of \<open>set_innerHTML\<close> is what the browser finds in the button elements of the markup.
\<close>

record dom =
  innerHTML :: string
  stimulus_div :: "(string \<times> string) option"
  listeners :: "nat list"
  own_btns_disabled :: bool
  content_is_button :: "bool list"
  foreign :: "foreign_el list"

definition set_innerHTML :: "string \<Rightarrow> bool list \<Rightarrow> dom \<Rightarrow> dom" where
  "set_innerHTML html bs d =
     d\<lparr>innerHTML := html,
       stimulus_div := (if html = [] then None else Some ([], [])),
       listeners := [],
       own_btns_disabled := False,
       content_is_button := bs\<rparr>"

text \<open>
  Whether the markup of one choice, the value of \<^verbatim>\<open>str\<close> on line 161, is a \<^verbatim>\<open>button\<close>
  element: it opens with the tag. The default template is one. A template that wraps
  its button in other elements counts as none, so that for such a template the model
  lets through clicks that a browser would not dispatch.
\<close>

definition is_button_markup :: "string \<Rightarrow> bool" where
  "is_button_markup str = (take 8 str = ''<button '' \<or> take 8 str = ''<button>'')"

text \<open>
  A browser dispatches no click event for a click on a disabled \<^verbatim>\<open>button\<close>: the listener
  of element \<open>i\<close> runs only if the element is in the display with its listener, and
  what it holds is not a button that lines 204-208 have disabled.
\<close>

definition click_dispatched :: "nat \<Rightarrow> dom \<Rightarrow> bool" where
  "click_dispatched i d =
     (i \<in> set (listeners d)
      \<and> \<not> (own_btns_disabled d \<and> i < length (content_is_button d) \<and> content_is_button d ! i))"

text \<open>\<^verbatim>\<open>btns[i].setAttribute('disabled', 'disabled')\<close> on one selected element.\<close>

definition disable_el :: "foreign_el \<Rightarrow> foreign_el" where
  "disable_el e = (if matches_btn_selector e then e\<lparr>disabled := Some ''disabled''\<rparr> else e)"

text \<open>
  Lines 204-208: \<^verbatim>\<open>document.querySelectorAll\<close> selects in the whole document, inside
  \<^verbatim>\<open>display_element\<close> and outside it.
\<close>

definition disable_buttons :: "dom \<Rightarrow> dom" where
  "disable_buttons d = d\<lparr>own_btns_disabled := True, foreign := map disable_el (foreign d)\<rparr>"

subsection \<open>The host: timers, the clock and the completion sink\<close>

text \<open>The two callbacks handed to \<^verbatim>\<open>jsPsych.pluginAPI.setTimeout\<close> (lines 239 and 246).\<close>

datatype timer_cb = HideStimulus | EndTrial

text \<open>
  Every call the plugin makes to its environment, in the order made: the console, the
  container, the clock, the listeners, the drawing function, the timer service and
  \<^verbatim>\<open>jsPsych.finishTrial\<close>.
\<close>

datatype 'p call =
    ConsoleError string
  | SetInnerHTML string
  | DateNow int
  | AddClickListener nat
  | CallStimulus string
  | SetTimeout timer_cb int
  | ClearAllTimeouts
  | FinishTrial "'p trial_data"

text \<open>
  The state of one trial: the trial object (the plugin writes to it), the closure
  variables \<^verbatim>\<open>start_time\<close> and \<^verbatim>\<open>response\<close>, the document, the pending timers with the
  time each is due, and the log of calls. \<^verbatim>\<open>start_time\<close> and \<^verbatim>\<open>response\<close> are
  \<^verbatim>\<open>undefined\<close> until lines 174 and 184 run. They are read only by the closures, which
  run only from a listener or a timer: the first listener is added on line 177, and no
  callback runs before \<^verbatim>\<open>plugin.trial\<close> has left, when line 184 has run too. So the
  values that \<open>init_state\<close> gives the two fields are never read.
\<close>

record 'p state =
  trial :: "'p trial"
  start_time :: int
  response :: "'p response"
  display :: dom
  timers :: "(int \<times> timer_cb) list"
  calls :: "'p call list"

definition log_call :: "'p call \<Rightarrow> 'p state \<Rightarrow> 'p state" where
  "log_call c s = s\<lparr>calls := calls s @ [c]\<rparr>"

text \<open>
  Modelled from the spec: the host's timer-registration service, which is not part of
  this repository ("register a callback to fire after N milliseconds; cancel all timers
  registered by this trial"). A timer registered at time \<open>now\<close> with delay \<open>d\<close> is due
  at \<open>now + d\<close>.
\<close>

definition pluginAPI_setTimeout :: "timer_cb \<Rightarrow> int \<Rightarrow> int \<Rightarrow> 'p state \<Rightarrow> 'p state" where
  "pluginAPI_setTimeout cb d now s =
     log_call (SetTimeout cb d) (s\<lparr>timers := timers s @ [(now + d, cb)]\<rparr>)"

definition pluginAPI_clearAllTimeouts :: "'p state \<Rightarrow> 'p state" where
  "pluginAPI_clearAllTimeouts s = log_call ClearAllTimeouts (s\<lparr>timers := []\<rparr>)"

text \<open>
  Modelled from the spec: the host's trial-completion sink \<^verbatim>\<open>jsPsych.finishTrial\<close>, "a
  single call accepting TrialResult". The model records the call and returns.
\<close>

definition finishTrial :: "'p trial_data \<Rightarrow> 'p state \<Rightarrow> 'p state" where
  "finishTrial d s = log_call (FinishTrial d) s"

fun finish_data :: "'p call \<Rightarrow> 'p trial_data list" where
  "finish_data (FinishTrial d) = [d]"
| "finish_data _ = []"

text \<open>The records handed to the completion sink so far, oldest first.\<close>

definition finished :: "'p state \<Rightarrow> 'p trial_data list" where
  "finished s = concat (map finish_data (calls s))"

subsection \<open>The defaults of \<^verbatim>\<open>plugin.info\<close>\<close>

definition default_button_html :: string where
  \<open>default_button_html = ''<button class="jspsych-btn">%choice%</button>''\<close>

text \<open>
  The trial object when the caller sets nothing (lines 38-128); a configuration is this
  record with the caller's fields updated.
\<close>

definition info_defaults :: "'p trial" where
  "info_defaults =
     \<lparr>stimulus = None, canvasHTML = None, canvasId = None, canvasWidth = 300,
      canvasHeight = 150, prompt = None, choices = None,
      button_html = Shared default_button_html, stimulus_duration = None,
      trial_duration = None, response_ends_trial = True,
      margin_vertical = ''0px'', margin_horizontal = ''8px''\<rparr>"

subsection \<open>Rendering: the first half of \<^verbatim>\<open>plugin.trial\<close>\<close>

definition default_canvas_id :: string where
  "default_canvas_id = ''jspsych-canvas-button-response-canvas''"

definition length_error_message :: string where
  "length_error_message = ''Error in canvas-button-response plugin. The length of the button_html array does not equal the length of the choices array''"

text \<open>Lines 133-142. The else branch assigns to \<^verbatim>\<open>trial.canvasId\<close>.\<close>

definition canvas_setup :: "'p trial \<Rightarrow> 'p trial \<times> string" where
  \<open>canvas_setup tr =
     (case canvasId tr of
        Some c \<Rightarrow> (tr, (case canvasHTML tr of None \<Rightarrow> ''null'' | Some h \<Rightarrow> h))
      | None \<Rightarrow>
          (tr\<lparr>canvasId := Some default_canvas_id\<rparr>,
           ''<canvas id="'' @ default_canvas_id @ ''" height="'' @ show_int (canvasHeight tr)
             @ ''" width="'' @ show_int (canvasWidth tr) @ ''"></canvas>''))\<close>

text \<open>Lines 143-144 and 158: the markup before the first button.\<close>

definition html_head :: "string \<Rightarrow> string" where
  \<open>html_head canvas =
     ''<div id="jspsych-canvas-button-response-wrapper" class="jspsych-button-response-wrapper">''
     @ ''<div id="jspsych-canvas-button-response-stimulus">'' @ canvas @ ''</div>''
     @ ''<div id="jspsych-canvas-button-response-btngroup">''\<close>

text \<open>Line 162: the element of button \<open>i\<close> around its markup \<open>str\<close>.\<close>

definition button_div :: "string \<Rightarrow> string \<Rightarrow> nat \<Rightarrow> string \<Rightarrow> string" where
  \<open>button_div mv mh i str =
     ''<div class="jspsych-canvas-button-response-button" style="display: inline-block; margin:''
     @ mv @ '' '' @ mh @ ''" id="jspsych-canvas-button-response-button-'' @ show_nat i
     @ ''" data-choice="'' @ show_nat i @ ''">'' @ str @ ''</div>''\<close>

text \<open>
  The loop of lines 160-163, from index \<open>i\<close> on, over the choices that are left.
  \<^verbatim>\<open>buttons[i]\<close> beyond the end of the array is \<^verbatim>\<open>undefined\<close>, and calling \<^verbatim>\<open>.replace\<close> on
  it throws a TypeError.
\<close>

fun button_loop :: "string \<Rightarrow> string \<Rightarrow> string list \<Rightarrow> string list \<Rightarrow> nat \<Rightarrow> string \<Rightarrow> js_error + string" where
  "button_loop mv mh buttons [] i html = Inr html"
| "button_loop mv mh buttons (c # cs) i html =
     (if i < length buttons
      then button_loop mv mh buttons cs (Suc i)
             (html @ button_div mv mh i (replace_choice (buttons ! i) c))
      else Inl TypeError)"

text \<open>The loop of lines 176-181: one click listener per choice.\<close>

fun add_listeners :: "nat list \<Rightarrow> 'p state \<Rightarrow> 'p state" where
  "add_listeners [] s = s"
| "add_listeners (i # is) s =
     add_listeners is
       (log_call (AddClickListener i) (s\<lparr>display := (display s)\<lparr>listeners := listeners (display s) @ [i]\<rparr>\<rparr>))"

text \<open>
  The state in which \<^verbatim>\<open>plugin.trial\<close> starts: the document as the host hands it over,
  nothing logged, no timer.
\<close>

definition init_state :: "dom \<Rightarrow> 'p trial \<Rightarrow> 'p state" where
  "init_state d tr =
     \<lparr>trial = tr, start_time = 0,
      response = \<lparr>rt = Null, button = Null, stimulus_properties = None\<rparr>,
      display = d, timers = [], calls = []\<rparr>"

text \<open>
  \<^verbatim>\<open>plugin.trial(display_element, trial)\<close>, lines 132-250, called at clock time \<open>now\<close>.
  The result is the exception thrown, if any, and the state reached.
  \<^item> \<^verbatim>\<open>trial.choices.length\<close> (line 148 or 154) throws when \<^verbatim>\<open>choices\<close> is undefined;
  \<^item> line 161 throws when \<^verbatim>\<open>buttons\<close> is shorter than \<^verbatim>\<open>choices\<close>;
  \<^item> \<^verbatim>\<open>trial.stimulus(...)\<close> (line 188) throws when \<^verbatim>\<open>stimulus\<close> is undefined.
  Line 188 passes \<^verbatim>\<open>trial.canvasId\<close>, which lines 135-142 have left a string; the
  \<open>None\<close> case of \<open>cid\<close> below is never taken.
\<close>

definition plugin_trial :: "dom \<Rightarrow> 'p trial \<Rightarrow> int \<Rightarrow> js_error option \<times> 'p state" where
  "plugin_trial display_element tr0 now =
     (let (tr, canvas) = canvas_setup tr0;
          s0 = init_state display_element tr
      in case choices tr of
           None \<Rightarrow> (Some TypeError, s0)
         | Some cs \<Rightarrow>
             (let (buttons, s1) =
                    (case button_html tr of
                       PerChoice bs \<Rightarrow>
                         (if length bs = length cs then (bs, s0)
                          else ([], log_call (ConsoleError length_error_message) s0))
                     | Shared b \<Rightarrow> (replicate (length cs) b, s0))
              in case button_loop (margin_vertical tr) (margin_horizontal tr) buttons cs 0
                        (html_head canvas) of
                   Inl e \<Rightarrow> (Some e, s1)
                 | Inr html1 \<Rightarrow>
                     (let html = html1 @ ''</div>'' @ (case prompt tr of None \<Rightarrow> [] | Some p \<Rightarrow> p);
                          kinds = map (\<lambda>(b, c). is_button_markup (replace_choice b c)) (zip buttons cs);
                          s2 = log_call (SetInnerHTML html)
                                 (s1\<lparr>display := set_innerHTML html kinds (display s1)\<rparr>);
                          s3 = log_call (DateNow now) (s2\<lparr>start_time := now\<rparr>);
                          s4 = add_listeners [0..<length cs] s3;
                          s5 = s4\<lparr>response := \<lparr>rt = Null, button = Null, stimulus_properties = None\<rparr>\<rparr>
                      in case stimulus tr of
                           None \<Rightarrow> (Some TypeError, s5)
                         | Some f \<Rightarrow>
                             (let cid = (case canvasId tr of None \<Rightarrow> ''false'' | Some c \<Rightarrow> c);
                                  s6 = log_call (CallStimulus cid)
                                         (s5\<lparr>response := (response s5)\<lparr>stimulus_properties := Some (f cid)\<rparr>\<rparr>);
                                  s7 = (case stimulus_duration tr of
                                          None \<Rightarrow> s6
                                        | Some d \<Rightarrow> pluginAPI_setTimeout HideStimulus d now s6);
                                  s8 = (case trial_duration tr of
                                          None \<Rightarrow> s7
                                        | Some d \<Rightarrow> pluginAPI_setTimeout EndTrial d now s7)
                              in (None, s8)))))"

subsection \<open>The closures\<close>

text \<open>
  \<^verbatim>\<open>end_trial\<close>, lines 216-233: cancel the timers, build \<^verbatim>\<open>trial_data\<close>, clear the
  display, call \<^verbatim>\<open>jsPsych.finishTrial\<close>.
\<close>

definition end_trial :: "'p state \<Rightarrow> 'p state" where
  "end_trial s =
     (let s1 = pluginAPI_clearAllTimeouts s;
          trial_data = \<lparr>td_rt = rt (response s1), td_stimulus = stimulus (trial s1),
                        td_button_pressed = button (response s1)\<rparr>;
          s2 = log_call (SetInnerHTML []) (s1\<lparr>display := set_innerHTML [] [] (display s1)\<rparr>)
      in finishTrial trial_data s2)"

text \<open>
  \<^verbatim>\<open>after_response(choice)\<close>, lines 191-213, run at clock time \<open>now\<close>. The two
  assignments to \<^verbatim>\<open>response\<close> come first and have no condition. \<^verbatim>\<open>querySelector\<close>
  returns \<^verbatim>\<open>null\<close> when the stimulus element is gone, and \<^verbatim>\<open>.className\<close> on it throws.
\<close>

definition after_response :: "js_value \<Rightarrow> int \<Rightarrow> 'p state \<Rightarrow> js_error option \<times> 'p state" where
  "after_response choice now s =
     (let s1 = log_call (DateNow now) s;
          s2 = s1\<lparr>response := (response s1)\<lparr>button := choice, rt := Num (now - start_time s1)\<rparr>\<rparr>
      in case stimulus_div (display s2) of
           None \<Rightarrow> (Some TypeError, s2)
         | Some (cls, vis) \<Rightarrow>
             (let s3 = s2\<lparr>display := (display s2)\<lparr>stimulus_div := Some (cls @ '' responded'', vis)\<rparr>\<rparr>;
                  s4 = s3\<lparr>display := disable_buttons (display s3)\<rparr>
              in if response_ends_trial (trial s4) then (None, end_trial s4) else (None, s4)))"

text \<open>The callback of the first timer, lines 239-241.\<close>

definition hide_stimulus :: "'p state \<Rightarrow> js_error option \<times> 'p state" where
  "hide_stimulus s =
     (case stimulus_div (display s) of
        None \<Rightarrow> (Some TypeError, s)
      | Some (cls, vis) \<Rightarrow> (None, s\<lparr>display := (display s)\<lparr>stimulus_div := Some (cls, ''hidden'')\<rparr>\<rparr>))"

subsection \<open>Events\<close>

text \<open>
  After \<^verbatim>\<open>plugin.trial\<close> has returned, the trial moves only when the browser runs one of
  its callbacks:
  \<^item> \<open>Click i t\<close>: at time \<open>t\<close> the click listener of button element \<open>i\<close> runs. The
    listener reads the element's \<^verbatim>\<open>data-choice\<close> attribute, the text of \<open>i\<close> written on
    line 162, and passes it to \<^verbatim>\<open>after_response\<close>. The listener runs only when the
    browser dispatches the click (\<open>click_dispatched\<close>): the element is in the display, and
    what it holds is not a disabled button.
  \<^item> \<open>Fire k t\<close>: at time \<open>t\<close> the \<open>k\<close>-th pending timer fires. A timer fires only
    when it is due, and once: it leaves the pending list before its callback runs.
  An exception that leaves a callback ends that callback; the state it reached stays.
\<close>

datatype event = Click nat int | Fire nat int

fun step :: "event \<Rightarrow> 'p state \<Rightarrow> 'p state" where
  "step (Click i t) s =
     (if click_dispatched i (display s)
      then snd (after_response (Str (show_nat i)) t s)
      else s)"
| "step (Fire k t) s =
     (if k < length (timers s) \<and> fst (timers s ! k) \<le> t
      then (let cb = snd (timers s ! k);
                s1 = s\<lparr>timers := take k (timers s) @ drop (Suc k) (timers s)\<rparr>
            in case cb of
                 HideStimulus \<Rightarrow> snd (hide_stimulus s1)
               | EndTrial \<Rightarrow> end_trial s1)
      else s)"

fun run :: "event list \<Rightarrow> 'p state \<Rightarrow> 'p state" where
  "run [] s = s"
| "run (e # es) s = run es (step e s)"

fun event_time :: "event \<Rightarrow> int" where
  "event_time (Click i t) = t"
| "event_time (Fire k t) = t"

fun is_fire :: "event \<Rightarrow> bool" where
  "is_fire (Fire k t) = True"
| "is_fire (Click i t) = False"

section \<open>Notions used in the statements\<close>

text \<open>
  The definitions of this section are not translations of source code. They name the
  values that \<^verbatim>\<open>plugin.trial\<close> computes on the way, so that the theorems can say what
  the state is after rendering.
\<close>

text \<open>The canvas id after lines 135-142, and the canvas markup.\<close>

definition canvas_id_of :: "'p trial \<Rightarrow> string" where
  "canvas_id_of tr = (case canvasId tr of None \<Rightarrow> default_canvas_id | Some c \<Rightarrow> c)"

definition canvas_of :: "'p trial \<Rightarrow> string" where
  "canvas_of tr = snd (canvas_setup tr)"

text \<open>The array \<^verbatim>\<open>buttons\<close> after lines 146-157.\<close>

definition buttons_of :: "'p trial \<Rightarrow> string list \<Rightarrow> string list" where
  "buttons_of tr cs =
     (case button_html tr of
        PerChoice bs \<Rightarrow> (if length bs = length cs then bs else [])
      | Shared b \<Rightarrow> replicate (length cs) b)"

text \<open>The button elements that a complete run of the loop of lines 160-163 appends.\<close>

definition button_group :: "string \<Rightarrow> string \<Rightarrow> string list \<Rightarrow> string list \<Rightarrow> string list" where
  "button_group mv mh bs cs =
     map (\<lambda>i. button_div mv mh i (replace_choice (bs ! i) (cs ! i))) [0..<length cs]"

text \<open>For each choice, whether its markup is a button element.\<close>

definition button_kinds :: "'p trial \<Rightarrow> string list \<Rightarrow> bool list" where
  "button_kinds tr cs =
     map (\<lambda>(b, c). is_button_markup (replace_choice b c)) (zip (buttons_of tr cs) cs)"

text \<open>The markup assigned on line 171.\<close>

definition trial_html :: "'p trial \<Rightarrow> string list \<Rightarrow> string" where
  "trial_html tr cs =
     html_head (canvas_of tr)
     @ concat (button_group (margin_vertical tr) (margin_horizontal tr) (buttons_of tr cs) cs)
     @ ''</div>'' @ (case prompt tr of None \<Rightarrow> [] | Some p \<Rightarrow> p)"

text \<open>The timers that lines 238-249 register at time \<open>now\<close>, and the calls that do it.\<close>

definition timer_list :: "'p trial \<Rightarrow> int \<Rightarrow> (int \<times> timer_cb) list" where
  "timer_list tr now =
     (case stimulus_duration tr of None \<Rightarrow> [] | Some d \<Rightarrow> [(now + d, HideStimulus)])
     @ (case trial_duration tr of None \<Rightarrow> [] | Some d \<Rightarrow> [(now + d, EndTrial)])"

definition timer_calls :: "'p trial \<Rightarrow> 'p call list" where
  "timer_calls tr =
     (case stimulus_duration tr of None \<Rightarrow> [] | Some d \<Rightarrow> [SetTimeout HideStimulus d])
     @ (case trial_duration tr of None \<Rightarrow> [] | Some d \<Rightarrow> [SetTimeout EndTrial d])"

text \<open>The call of line 151, when it is made.\<close>

definition length_error_calls :: "'p trial \<Rightarrow> string list \<Rightarrow> 'p call list" where
  "length_error_calls tr cs =
     (case button_html tr of
        PerChoice bs \<Rightarrow> (if length bs = length cs then [] else [ConsoleError length_error_message])
      | Shared b \<Rightarrow> [])"

subsection \<open>Concrete inputs\<close>

text \<open>A page whose display element is empty and that holds nothing else.\<close>

definition empty_page :: dom where
  "empty_page =
     \<lparr>innerHTML = [], stimulus_div = None, listeners = [], own_btns_disabled = False,
      content_is_button = [], foreign = []\<rparr>"

text \<open>
  The configuration of the confidence scenario: two choices, a trial duration of 2000 ms,
  everything else as \<^verbatim>\<open>plugin.info\<close> defaults it. The drawing function returns nothing.
\<close>

definition confidence_trial :: "unit trial" where
  "confidence_trial =
     info_defaults\<lparr>stimulus := Some (\<lambda>c. ()),
                   choices := Some [''Low confidence'', ''High confidence''],
                   trial_duration := Some 2000\<rparr>"

text \<open>
  Two choices whose markup is a \<^verbatim>\<open>span\<close>, not a \<^verbatim>\<open>button\<close>, in a trial that a response
  does not end. The selector of line 204 selects nothing in this markup, so nothing in
  the display is disabled after a click.
\<close>

definition span_trial :: "unit trial" where
  \<open>span_trial =
     info_defaults\<lparr>stimulus := Some (\<lambda>c. ()), choices := Some [''A'', ''B''],
                   button_html := Shared ''<span class="opt">%choice%</span>'',
                   response_ends_trial := False\<rparr>\<close>

text \<open>
  The same two choices with the default template, a \<^verbatim>\<open>button\<close>, in a trial that a
  response does not end.
\<close>

definition button_trial :: "unit trial" where
  "button_trial =
     info_defaults\<lparr>stimulus := Some (\<lambda>c. ()), choices := Some [''A'', ''B''],
                   response_ends_trial := False\<rparr>"

text \<open>
  A page that holds, outside the display element, a button of another widget that
  the selector of line 204 selects.
\<close>

definition page_with_other_button :: dom where
  "page_with_other_button =
     \<lparr>innerHTML = [], stimulus_div = None, listeners = [], own_btns_disabled = False,
      content_is_button = [],
      foreign = [\<lparr>el_name = ''submit-button-of-another-widget'', matches_btn_selector = True,
                  disabled = None\<rparr>]\<rparr>"

text \<open>
  A per-choice template list with one template for two choices.
\<close>

definition short_list_trial :: "unit trial" where
  "short_list_trial =
     info_defaults\<lparr>stimulus := Some (\<lambda>c. ()), choices := Some [''A'', ''B''],
                   button_html := PerChoice [default_button_html]\<rparr>"

text \<open>
  One choice whose label holds two dollar signs, everything else as \<^verbatim>\<open>plugin.info\<close>
  defaults it.
\<close>

definition dollar_trial :: "unit trial" where
  "dollar_trial = info_defaults\<lparr>stimulus := Some (\<lambda>c. ()), choices := Some [''$$10'']\<rparr>"

subsection \<open>Reading the log of calls\<close>

text \<open>
  The calls made before the drawing function is first called, and the canvas ids with
  which it is called, in order.
\<close>

fun before_stimulus :: "'p call list \<Rightarrow> 'p call list" where
  "before_stimulus [] = []"
| "before_stimulus (CallStimulus c # xs) = []"
| "before_stimulus (x # xs) = x # before_stimulus xs"

fun stimulus_calls :: "'p call list \<Rightarrow> string list" where
  "stimulus_calls [] = []"
| "stimulus_calls (CallStimulus c # xs) = c # stimulus_calls xs"
| "stimulus_calls (x # xs) = stimulus_calls xs"

subsection \<open>Exchanging the drawing function\<close>

text \<open>
  The state \<open>s\<close> with another drawing function \<open>g\<close> in the trial object and in the
  records already handed to the completion sink, and with \<open>q\<close> as the value the drawing
  function returned.
\<close>

fun relabel :: "(string \<Rightarrow> 'p) option \<Rightarrow> 'p call \<Rightarrow> 'p call" where
  "relabel g (FinishTrial x) = FinishTrial (x\<lparr>td_stimulus := g\<rparr>)"
| "relabel g c = c"

definition with_stimulus :: "(string \<Rightarrow> 'p) option \<Rightarrow> 'p option \<Rightarrow> 'p state \<Rightarrow> 'p state" where
  "with_stimulus g q s =
     s\<lparr>trial := (trial s)\<lparr>stimulus := g\<rparr>,
       response := (response s)\<lparr>stimulus_properties := q\<rparr>,
       calls := map (relabel g) (calls s)\<rparr>"

section \<open>Properties\<close>

subsection \<open>The button loop and the listeners\<close>

lemma button_loop_ok_from:
  "i + length cs \<le> length bs \<Longrightarrow>
   button_loop mv mh bs cs i html =
     Inr (html @ concat (map (\<lambda>j. button_div mv mh (i + j) (replace_choice (bs ! (i + j)) (cs ! j)))
                          [0..<length cs]))"
proof (induction cs arbitrary: i html)
  case Nil
  then show ?case by simp
next
  case (Cons c cs)
  have shift: "[0..<Suc (length cs)] = 0 # map Suc [0..<length cs]"
    by (simp add: upt_conv_Cons map_Suc_upt del: upt_Suc)
  from Cons.prems have "i < length bs" and "Suc i + length cs \<le> length bs" by simp_all
  then show ?case
    using Cons.IH [of "Suc i"] by (simp add: shift comp_def del: upt_Suc)
qed

lemma button_loop_ok:
  "length cs \<le> length bs \<Longrightarrow>
   button_loop mv mh bs cs 0 html = Inr (html @ concat (button_group mv mh bs cs))"
  using button_loop_ok_from [of 0 cs bs mv mh html] by (simp add: button_group_def)

lemma button_loop_short:
  "i \<le> length bs \<Longrightarrow> length bs < i + length cs \<Longrightarrow>
   button_loop mv mh bs cs i html = Inl TypeError"
  by (induction cs arbitrary: i html) auto

lemma add_listeners_eq:
  "add_listeners is s =
     s\<lparr>display := (display s)\<lparr>listeners := listeners (display s) @ is\<rparr>,
       calls := calls s @ map AddClickListener is\<rparr>"
  by (induction "is" arbitrary: s) (simp_all add: log_call_def)

lemma canvas_setup_eq:
  "canvas_setup tr = (tr\<lparr>canvasId := Some (canvas_id_of tr)\<rparr>, canvas_of tr)"
  by (cases "canvasId tr") (simp_all add: canvas_setup_def canvas_id_of_def canvas_of_def)

lemma length_buttons_of:
  "length (buttons_of tr cs) = length cs \<or> buttons_of tr cs = []"
  by (simp add: buttons_of_def split: button_html.splits)

lemma trial_html_nonempty: "trial_html tr cs \<noteq> []"
  by (simp add: trial_html_def html_head_def)

subsection \<open>The four ways \<^verbatim>\<open>plugin.trial\<close> ends\<close>

text \<open>
  It returns, with the trial rendered; or it throws because there are no choices,
  because \<^verbatim>\<open>buttons\<close> is shorter than \<^verbatim>\<open>choices\<close>, or because there is no drawing function.
  In each case the state reached is given in full.
\<close>

lemma plugin_trial_rendered:
  assumes "choices tr = Some cs" and "stimulus tr = Some f"
    and "length (buttons_of tr cs) = length cs"
  shows "plugin_trial d tr now =
    (None,
     \<lparr>trial = tr\<lparr>canvasId := Some (canvas_id_of tr)\<rparr>,
      start_time = now,
      response = \<lparr>rt = Null, button = Null, stimulus_properties = Some (f (canvas_id_of tr))\<rparr>,
      display = d\<lparr>innerHTML := trial_html tr cs, stimulus_div := Some ([], []),
                  listeners := [0..<length cs], own_btns_disabled := False,
                  content_is_button := button_kinds tr cs\<rparr>,
      timers = timer_list tr now,
      calls = length_error_calls tr cs @ [SetInnerHTML (trial_html tr cs), DateNow now]
              @ map AddClickListener [0..<length cs] @ [CallStimulus (canvas_id_of tr)]
              @ timer_calls tr\<rparr>)"
proof -
  let ?tr = "tr\<lparr>canvasId := Some (canvas_id_of tr)\<rparr>"
  let ?canvas = "canvas_of tr"
  have loop: "button_loop (margin_vertical tr) (margin_horizontal tr) (buttons_of tr cs) cs 0
                (html_head ?canvas)
              = Inr (html_head ?canvas
                     @ concat (button_group (margin_vertical tr) (margin_horizontal tr) (buttons_of tr cs) cs))"
    using assms(3) by (simp add: button_loop_ok)
  have nonempty: "trial_html tr cs \<noteq> []"
    by (simp add: trial_html_def html_head_def)
  show ?thesis
  proof (cases "button_html tr")
    case (Shared b)
    then show ?thesis
      using assms(1,2) loop nonempty
      by (simp add: plugin_trial_def canvas_setup_eq Let_def buttons_of_def trial_html_def init_state_def
          add_listeners_eq log_call_def set_innerHTML_def pluginAPI_setTimeout_def button_kinds_def
          timer_list_def timer_calls_def length_error_calls_def split: option.splits)
  next
    case (PerChoice bs)
    then show ?thesis
      using assms(1,2) loop nonempty
      by (simp add: plugin_trial_def canvas_setup_eq Let_def buttons_of_def trial_html_def init_state_def
          add_listeners_eq log_call_def set_innerHTML_def pluginAPI_setTimeout_def button_kinds_def
          timer_list_def timer_calls_def length_error_calls_def split: option.splits if_splits)
  qed
qed

lemma plugin_trial_no_choices:
  assumes "choices tr = None"
  shows "plugin_trial d tr now = (Some TypeError, init_state d (tr\<lparr>canvasId := Some (canvas_id_of tr)\<rparr>))"
  using assms by (simp add: plugin_trial_def canvas_setup_eq Let_def)

lemma plugin_trial_short:
  assumes "choices tr = Some cs" and "length (buttons_of tr cs) \<noteq> length cs"
  shows "plugin_trial d tr now =
     (Some TypeError,
      (init_state d (tr\<lparr>canvasId := Some (canvas_id_of tr)\<rparr>))\<lparr>calls := [ConsoleError length_error_message]\<rparr>)"
proof -
  from assms(2) obtain bs where bh: "button_html tr = PerChoice bs" and ne: "length bs \<noteq> length cs"
    by (cases "button_html tr") (auto simp add: buttons_of_def split: if_splits)
  from assms(2) ne bh have "cs \<noteq> []" by (auto simp add: buttons_of_def)
  then obtain c cs' where cs: "cs = c # cs'" by (cases cs) auto
  show ?thesis
    using assms(1) bh ne
    by (simp add: plugin_trial_def canvas_setup_eq Let_def cs log_call_def init_state_def)
qed

lemma plugin_trial_no_stimulus:
  assumes "choices tr = Some cs" and "stimulus tr = None"
    and "length (buttons_of tr cs) = length cs"
  shows "plugin_trial d tr now =
    (Some TypeError,
     \<lparr>trial = tr\<lparr>canvasId := Some (canvas_id_of tr)\<rparr>,
      start_time = now,
      response = \<lparr>rt = Null, button = Null, stimulus_properties = None\<rparr>,
      display = d\<lparr>innerHTML := trial_html tr cs, stimulus_div := Some ([], []),
                  listeners := [0..<length cs], own_btns_disabled := False,
                  content_is_button := button_kinds tr cs\<rparr>,
      timers = [],
      calls = length_error_calls tr cs @ [SetInnerHTML (trial_html tr cs), DateNow now]
              @ map AddClickListener [0..<length cs]\<rparr>)"
proof -
  have loop: "button_loop (margin_vertical tr) (margin_horizontal tr) (buttons_of tr cs) cs 0
                (html_head (canvas_of tr))
              = Inr (html_head (canvas_of tr)
                     @ concat (button_group (margin_vertical tr) (margin_horizontal tr) (buttons_of tr cs) cs))"
    using assms(3) by (simp add: button_loop_ok)
  have nonempty: "trial_html tr cs \<noteq> []"
    by (simp add: trial_html_def html_head_def)
  show ?thesis
  proof (cases "button_html tr")
    case (Shared b)
    then show ?thesis
      using assms(1,2) loop nonempty
      by (simp add: plugin_trial_def canvas_setup_eq Let_def buttons_of_def trial_html_def init_state_def
          add_listeners_eq log_call_def set_innerHTML_def length_error_calls_def button_kinds_def)
  next
    case (PerChoice bs)
    then show ?thesis
      using assms(1,2) loop nonempty
      by (simp add: plugin_trial_def canvas_setup_eq Let_def buttons_of_def trial_html_def init_state_def
          add_listeners_eq log_call_def set_innerHTML_def length_error_calls_def button_kinds_def
          split: if_splits)
  qed
qed

lemma plugin_trial_returns:
  assumes "fst (plugin_trial d tr now) = None"
  shows "\<exists>cs f. choices tr = Some cs \<and> stimulus tr = Some f \<and> length (buttons_of tr cs) = length cs"
proof (cases "choices tr")
  case None
  with assms show ?thesis by (simp add: plugin_trial_no_choices)
next
  case (Some cs)
  show ?thesis
  proof (cases "length (buttons_of tr cs) = length cs")
    case False
    with Some assms show ?thesis by (simp add: plugin_trial_short)
  next
    case True
    show ?thesis
    proof (cases "stimulus tr")
      case None
      with Some True assms show ?thesis by (simp add: plugin_trial_no_stimulus)
    next
      case (Some f)
      with True \<open>choices tr = Some cs\<close> show ?thesis by simp
    qed
  qed
qed

lemma finished_rendered_calls:
  "concat (map finish_data
     (length_error_calls tr cs @ [SetInnerHTML h, DateNow now]
      @ map AddClickListener ns @ [CallStimulus c] @ timer_calls tr)) = []"
  by (cases "button_html tr"; cases "stimulus_duration tr"; cases "trial_duration tr")
     (simp_all add: length_error_calls_def timer_calls_def comp_def)

lemma rendered_fields:
  assumes "choices tr = Some cs" and "stimulus tr = Some f"
    and "length (buttons_of tr cs) = length cs"
  shows "trial (snd (plugin_trial d tr now)) = tr\<lparr>canvasId := Some (canvas_id_of tr)\<rparr>"
    and "start_time (snd (plugin_trial d tr now)) = now"
    and "response (snd (plugin_trial d tr now)) =
           \<lparr>rt = Null, button = Null, stimulus_properties = Some (f (canvas_id_of tr))\<rparr>"
    and "listeners (display (snd (plugin_trial d tr now))) = [0..<length cs]"
    and "stimulus_div (display (snd (plugin_trial d tr now))) = Some ([], [])"
    and "innerHTML (display (snd (plugin_trial d tr now))) = trial_html tr cs"
    and "foreign (display (snd (plugin_trial d tr now))) = foreign d"
    and "timers (snd (plugin_trial d tr now)) = timer_list tr now"
    and "finished (snd (plugin_trial d tr now)) = []"
    and "own_btns_disabled (display (snd (plugin_trial d tr now))) = False"
    and "content_is_button (display (snd (plugin_trial d tr now))) = button_kinds tr cs"
    and "click_dispatched i (display (snd (plugin_trial d tr now))) = (i < length cs)"
  by (simp_all add: plugin_trial_rendered [OF assms] finished_def finished_rendered_calls
      click_dispatched_def del: append.simps map_append concat_append)

lemma trial_plugin_trial:
  "trial (snd (plugin_trial d tr now)) = tr\<lparr>canvasId := Some (canvas_id_of tr)\<rparr>"
proof (cases "choices tr")
  case None
  then show ?thesis by (simp add: plugin_trial_no_choices init_state_def)
next
  case (Some cs)
  show ?thesis
  proof (cases "length (buttons_of tr cs) = length cs")
    case False
    with Some show ?thesis by (simp add: plugin_trial_short init_state_def)
  next
    case True
    with Some show ?thesis
      by (cases "stimulus tr") (simp_all add: plugin_trial_no_stimulus plugin_trial_rendered)
  qed
qed

lemma foreign_plugin_trial:
  "foreign (display (snd (plugin_trial d tr now))) = foreign d"
proof (cases "choices tr")
  case None
  then show ?thesis by (simp add: plugin_trial_no_choices init_state_def)
next
  case (Some cs)
  show ?thesis
  proof (cases "length (buttons_of tr cs) = length cs")
    case False
    with Some show ?thesis by (simp add: plugin_trial_short init_state_def)
  next
    case True
    with Some show ?thesis
      by (cases "stimulus tr") (simp_all add: plugin_trial_no_stimulus plugin_trial_rendered)
  qed
qed

subsection \<open>The closures\<close>

lemma finished_append_calls [simp]:
  "finished (s\<lparr>calls := calls s @ xs\<rparr>) = finished s @ concat (map finish_data xs)"
  by (simp add: finished_def)

lemma end_trial_eq:
  "end_trial s =
     s\<lparr>timers := [],
       display := (display s)\<lparr>innerHTML := [], stimulus_div := None, listeners := [],
                               own_btns_disabled := False, content_is_button := []\<rparr>,
       calls := calls s @ [ClearAllTimeouts, SetInnerHTML [],
                  FinishTrial \<lparr>td_rt = rt (response s), td_stimulus = stimulus (trial s),
                               td_button_pressed = button (response s)\<rparr>]\<rparr>"
  by (simp add: end_trial_def pluginAPI_clearAllTimeouts_def finishTrial_def log_call_def
      set_innerHTML_def Let_def)

lemma after_response_eq:
  assumes "stimulus_div (display s) = Some (cls, vis)"
  shows "after_response choice now s =
     (None,
      (if response_ends_trial (trial s) then end_trial else id)
        (s\<lparr>response := (response s)\<lparr>button := choice, rt := Num (now - start_time s)\<rparr>,
           display := (display s)\<lparr>stimulus_div := Some (cls @ '' responded'', vis),
                                  own_btns_disabled := True,
                                  foreign := map disable_el (foreign (display s))\<rparr>,
           calls := calls s @ [DateNow now]\<rparr>))"
  using assms
  by (cases s) (simp add: after_response_def log_call_def disable_buttons_def Let_def)

lemma hide_stimulus_eq:
  assumes "stimulus_div (display s) = Some (cls, vis)"
  shows "hide_stimulus s = (None, s\<lparr>display := (display s)\<lparr>stimulus_div := Some (cls, ''hidden'')\<rparr>\<rparr>)"
  using assms by (simp add: hide_stimulus_def)

lemma trial_end_trial [simp]: "trial (end_trial s) = trial s"
  by (simp add: end_trial_eq)

lemma trial_after_response [simp]: "trial (snd (after_response c t s)) = trial s"
  by (simp add: after_response_def end_trial_eq log_call_def Let_def split: option.splits)

lemma trial_hide_stimulus [simp]: "trial (snd (hide_stimulus s)) = trial s"
  by (simp add: hide_stimulus_def split: option.splits)

subsection \<open>Events\<close>

lemma run_append: "run (es1 @ es2) s = run es2 (run es1 s)"
  by (induction es1 arbitrary: s) auto

lemma step_finished_state:
  "timers s = [] \<Longrightarrow> listeners (display s) = [] \<Longrightarrow> step e s = s"
  by (cases e) (simp_all add: click_dispatched_def)

lemma run_finished_state:
  "timers s = [] \<Longrightarrow> listeners (display s) = [] \<Longrightarrow> run es s = s"
  by (induction es) (simp_all add: step_finished_state)

lemma trial_step [simp]: "trial (step e s) = trial s"
  by (cases e) (simp_all add: Let_def split: timer_cb.splits)

lemma trial_run [simp]: "trial (run es s) = trial s"
  by (induction es arbitrary: s) simp_all

lemma click_ends_trial:
  assumes "click_dispatched i (display s)" and "stimulus_div (display s) \<noteq> None"
    and "response_ends_trial (trial s)"
  shows "finished (step (Click i t) s) =
           finished s @ [\<lparr>td_rt = Num (t - start_time s), td_stimulus = stimulus (trial s),
                          td_button_pressed = Str (show_nat i)\<rparr>]"
    and "timers (step (Click i t) s) = []"
    and "listeners (display (step (Click i t) s)) = []"
    and "response (step (Click i t) s) =
           (response s)\<lparr>button := Str (show_nat i), rt := Num (t - start_time s)\<rparr>"
proof -
  from assms(2) obtain cls vis where sd: "stimulus_div (display s) = Some (cls, vis)"
    by (cases "stimulus_div (display s)") auto
  show "finished (step (Click i t) s) =
           finished s @ [\<lparr>td_rt = Num (t - start_time s), td_stimulus = stimulus (trial s),
                          td_button_pressed = Str (show_nat i)\<rparr>]"
    using assms(1,3) by (simp add: after_response_eq [OF sd] end_trial_eq finished_def)
  show "timers (step (Click i t) s) = []"
    using assms(1,3) by (simp add: after_response_eq [OF sd] end_trial_eq)
  show "listeners (display (step (Click i t) s)) = []"
    using assms(1,3) by (simp add: after_response_eq [OF sd] end_trial_eq)
  show "response (step (Click i t) s) =
           (response s)\<lparr>button := Str (show_nat i), rt := Num (t - start_time s)\<rparr>"
    using assms(1,3) by (simp add: after_response_eq [OF sd] end_trial_eq)
qed

lemma early_fire_keeps:
  assumes "\<forall>x\<in>set (timers s). snd x = EndTrial \<longrightarrow> T \<le> fst x"
    and "stimulus_div (display s) \<noteq> None" and "t < T"
  shows "trial (step (Fire k t) s) = trial s
       \<and> start_time (step (Fire k t) s) = start_time s
       \<and> response (step (Fire k t) s) = response s
       \<and> click_dispatched i (display (step (Fire k t) s)) = click_dispatched i (display s)
       \<and> stimulus_div (display (step (Fire k t) s)) \<noteq> None
       \<and> calls (step (Fire k t) s) = calls s
       \<and> (\<forall>x\<in>set (timers (step (Fire k t) s)). snd x = EndTrial \<longrightarrow> T \<le> fst x)"
proof (cases "k < length (timers s) \<and> fst (timers s ! k) \<le> t")
  case False
  then show ?thesis using assms by auto
next
  case True
  from assms(2) obtain cls vis where sd: "stimulus_div (display s) = Some (cls, vis)"
    by (cases "stimulus_div (display s)") auto
  from True have mem: "timers s ! k \<in> set (timers s)" by simp
  with assms(1,3) True have cb: "snd (timers s ! k) = HideStimulus"
    by (cases "snd (timers s ! k)") force+
  have sub: "set (take k (timers s) @ drop (Suc k) (timers s)) \<subseteq> set (timers s)"
    by (auto dest: in_set_takeD in_set_dropD)
  let ?s1 = "s\<lparr>timers := take k (timers s) @ drop (Suc k) (timers s)\<rparr>"
  have sd1: "stimulus_div (display ?s1) = Some (cls, vis)" using sd by simp
  have "step (Fire k t) s = ?s1\<lparr>display := (display s)\<lparr>stimulus_div := Some (cls, ''hidden'')\<rparr>\<rparr>"
    using True cb by (simp add: hide_stimulus_eq [OF sd1] Let_def)
  then show ?thesis using assms(1) sub by (auto simp add: click_dispatched_def)
qed

lemma early_fires_keep:
  assumes "\<forall>e\<in>set es. is_fire e \<and> event_time e < T"
    and "\<forall>x\<in>set (timers s). snd x = EndTrial \<longrightarrow> T \<le> fst x"
    and "stimulus_div (display s) \<noteq> None"
  shows "trial (run es s) = trial s
       \<and> start_time (run es s) = start_time s
       \<and> response (run es s) = response s
       \<and> click_dispatched i (display (run es s)) = click_dispatched i (display s)
       \<and> stimulus_div (display (run es s)) \<noteq> None
       \<and> calls (run es s) = calls s"
  using assms
proof (induction es arbitrary: s)
  case Nil
  then show ?case by simp
next
  case (Cons e es)
  from Cons.prems(1) obtain k t where e: "e = Fire k t" and t: "t < T"
    by (cases e) auto
  note keep = early_fire_keeps [OF Cons.prems(2) Cons.prems(3) t, of k i]
  have "trial (run es (step e s)) = trial (step e s)
       \<and> start_time (run es (step e s)) = start_time (step e s)
       \<and> response (run es (step e s)) = response (step e s)
       \<and> click_dispatched i (display (run es (step e s))) = click_dispatched i (display (step e s))
       \<and> stimulus_div (display (run es (step e s))) \<noteq> None
       \<and> calls (run es (step e s)) = calls (step e s)"
    using Cons.prems(1) keep by (intro Cons.IH) (simp_all add: e)
  then show ?case using keep by (simp add: e)
qed

declare step.simps [simp del]

lemma show_nat_0 [simp]: "show_nat 0 = ''0''"
  by (simp add: show_nat.simps digit_char_def)

lemma show_nat_1 [simp]: "show_nat (Suc 0) = ''1''"
  by (simp add: show_nat.simps digit_char_def)

lemma confidence_trial_rendered:
  "choices confidence_trial = Some [''Low confidence'', ''High confidence'']"
  "stimulus confidence_trial = Some (\<lambda>c. ())"
  "length (buttons_of confidence_trial [''Low confidence'', ''High confidence''])
     = length [''Low confidence'', ''High confidence'']"
  by (simp_all add: confidence_trial_def info_defaults_def buttons_of_def)

lemma span_trial_rendered:
  "choices span_trial = Some [''A'', ''B'']"
  "stimulus span_trial = Some (\<lambda>c. ())"
  "length (buttons_of span_trial [''A'', ''B'']) = length [''A'', ''B'']"
  by (simp_all add: span_trial_def info_defaults_def buttons_of_def)

lemma rendered_click:
  assumes "choices tr = Some cs" and "stimulus tr = Some f"
    and "length (buttons_of tr cs) = length cs"
    and "i < length cs" and "response_ends_trial tr"
  shows "finished (run (Click i t # es) (snd (plugin_trial d tr now))) =
           [\<lparr>td_rt = Num (t - now), td_stimulus = Some f, td_button_pressed = Str (show_nat i)\<rparr>]"
proof -
  define s where "s = snd (plugin_trial d tr now)"
  note fields = rendered_fields [OF assms(1-3), where d = d and now = now, folded s_def]
  have l: "click_dispatched i (display s)" using assms(4) by (simp add: fields(12))
  have sd: "stimulus_div (display s) \<noteq> None" by (simp add: fields(5))
  have r: "response_ends_trial (trial s)" using assms(5) by (simp add: fields(1))
  note click = click_ends_trial [OF l sd r, of t]
  have "run (Click i t # es) s = step (Click i t) s"
    using click(2,3) by (simp add: run_finished_state)
  then have "finished (run (Click i t # es) s) =
           [\<lparr>td_rt = Num (t - now), td_stimulus = Some f, td_button_pressed = Str (show_nat i)\<rparr>]"
    using click(1) assms(2) by (simp add: fields(1,2,9))
  then show ?thesis by (simp only: s_def)
qed

lemma button_trial_rendered:
  "choices button_trial = Some [''A'', ''B'']"
  "stimulus button_trial = Some (\<lambda>c. ())"
  "length (buttons_of button_trial [''A'', ''B'']) = length [''A'', ''B'']"
  by (simp_all add: button_trial_def info_defaults_def buttons_of_def)

lemma span_trial_kinds: "button_kinds span_trial [''A'', ''B''] = [False, False]"
proof -
  have bs: \<open>buttons_of span_trial [''A'', ''B'']
              = [''<span class="opt">%choice%</span>'', ''<span class="opt">%choice%</span>'']\<close>
    by (simp add: buttons_of_def span_trial_def info_defaults_def)
  have a: \<open>replace_choice ''<span class="opt">%choice%</span>'' ''A'' = ''<span class="opt">A</span>''\<close>
    by (simp add: replace_choice_def replace_from.simps)
  have b: \<open>replace_choice ''<span class="opt">%choice%</span>'' ''B'' = ''<span class="opt">B</span>''\<close>
    by (simp add: replace_choice_def replace_from.simps)
  show ?thesis
    unfolding button_kinds_def bs by (simp add: a b is_button_markup_def)
qed

lemma button_trial_kinds: "button_kinds button_trial [''A'', ''B''] = [True, True]"
proof -
  have bs: "buttons_of button_trial [''A'', ''B''] = [default_button_html, default_button_html]"
    by (simp add: buttons_of_def button_trial_def info_defaults_def)
  have a: \<open>replace_choice default_button_html ''A'' = ''<button class="jspsych-btn">A</button>''\<close>
    by (simp add: default_button_html_def replace_choice_def replace_from.simps)
  have b: \<open>replace_choice default_button_html ''B'' = ''<button class="jspsych-btn">B</button>''\<close>
    by (simp add: default_button_html_def replace_choice_def replace_from.simps)
  show ?thesis
    unfolding button_kinds_def bs by (simp add: a b is_button_markup_def)
qed

lemma click_overwrites:
  assumes "click_dispatched i (display s)" and "stimulus_div (display s) \<noteq> None"
    and "\<not> response_ends_trial (trial s)"
  shows "response (step (Click i t) s) =
           (response s)\<lparr>button := Str (show_nat i), rt := Num (t - start_time s)\<rparr>"
    and "listeners (display (step (Click i t) s)) = listeners (display s)"
    and "stimulus_div (display (step (Click i t) s)) \<noteq> None"
    and "start_time (step (Click i t) s) = start_time s"
    and "finished (step (Click i t) s) = finished s"
    and "own_btns_disabled (display (step (Click i t) s))"
    and "content_is_button (display (step (Click i t) s)) = content_is_button (display s)"
proof -
  from assms(2) obtain cls vis where sd: "stimulus_div (display s) = Some (cls, vis)"
    by (cases "stimulus_div (display s)") auto
  show "response (step (Click i t) s) =
           (response s)\<lparr>button := Str (show_nat i), rt := Num (t - start_time s)\<rparr>"
    using assms(1,3) by (simp add: step.simps after_response_eq [OF sd])
  show "listeners (display (step (Click i t) s)) = listeners (display s)"
    using assms(1,3) by (simp add: step.simps after_response_eq [OF sd])
  show "stimulus_div (display (step (Click i t) s)) \<noteq> None"
    using assms(1,3) by (simp add: step.simps after_response_eq [OF sd])
  show "start_time (step (Click i t) s) = start_time s"
    using assms(1,3) by (simp add: step.simps after_response_eq [OF sd])
  show "finished (step (Click i t) s) = finished s"
    using assms(1,3) by (simp add: step.simps after_response_eq [OF sd] finished_def)
  show "own_btns_disabled (display (step (Click i t) s))"
    using assms(1,3) by (simp add: step.simps after_response_eq [OF sd])
  show "content_is_button (display (step (Click i t) s)) = content_is_button (display s)"
    using assms(1,3) by (simp add: step.simps after_response_eq [OF sd])
qed

lemma disabled_button_click_ignored:
  assumes "own_btns_disabled (display s)" and "i < length (content_is_button (display s))"
    and "content_is_button (display s) ! i"
  shows "step (Click i t) s = s"
  using assms by (simp add: step.simps click_dispatched_def)

subsection \<open>The document outside the display, the clock and the drawing function\<close>

lemma disable_el_idem [simp]: "disable_el (disable_el e) = disable_el e"
  by (simp add: disable_el_def)

lemma foreign_step:
  "foreign (display (step e s)) = foreign (display s)
   \<or> foreign (display (step e s)) = map disable_el (foreign (display s))"
proof (cases e)
  case (Click i t)
  show ?thesis
  proof (cases "stimulus_div (display s)")
    case None
    then show ?thesis
      by (simp add: Click step.simps after_response_def log_call_def Let_def)
  next
    case (Some p)
    then obtain cls vis where "stimulus_div (display s) = Some (cls, vis)" by (cases p) auto
    then show ?thesis
      by (simp add: Click step.simps after_response_eq end_trial_eq)
  qed
next
  case (Fire k t)
  then show ?thesis
    by (simp add: step.simps hide_stimulus_def end_trial_eq Let_def
        split: timer_cb.splits option.splits)
qed

lemma foreign_run:
  "foreign (display (run es s)) = foreign (display s)
   \<or> foreign (display (run es s)) = map disable_el (foreign (display s))"
proof (induction es arbitrary: s)
  case Nil
  then show ?case by simp
next
  case (Cons e es)
  from Cons.IH [of "step e s"] foreign_step [of e s] show ?case
    by (auto simp add: comp_def)
qed

lemma foreign_end_trial: "foreign (display (end_trial s)) = foreign (display s)"
  by (simp add: end_trial_eq)

lemma foreign_hide_stimulus: "foreign (display (snd (hide_stimulus s))) = foreign (display s)"
  by (simp add: hide_stimulus_def split: option.splits)

lemma foreign_after_response:
  "foreign (display (snd (after_response c t s))) =
     (case stimulus_div (display s) of
        None \<Rightarrow> foreign (display s)
      | Some p \<Rightarrow> map disable_el (foreign (display s)))"
proof (cases "stimulus_div (display s)")
  case None
  then show ?thesis by (simp add: after_response_def log_call_def Let_def)
next
  case (Some p)
  then obtain cls vis where sd: "stimulus_div (display s) = Some (cls, vis)" by (cases p) auto
  then show ?thesis by (simp add: after_response_eq [OF sd] end_trial_eq)
qed

lemma foreign_fire: "foreign (display (step (Fire k t) s)) = foreign (display s)"
  by (simp add: step.simps foreign_hide_stimulus foreign_end_trial Let_def split: timer_cb.splits)

lemma foreign_click:
  "foreign (display (step (Click i t) s)) =
     (if click_dispatched i (display s) \<and> stimulus_div (display s) \<noteq> None
      then map disable_el (foreign (display s))
      else foreign (display s))"
  by (cases "stimulus_div (display s)") (simp_all add: step.simps foreign_after_response)

lemma foreign_fires:
  "\<forall>e\<in>set es. is_fire e \<Longrightarrow> foreign (display (run es s)) = foreign (display s)"
proof (induction es arbitrary: s)
  case Nil
  then show ?case by simp
next
  case (Cons e es)
  then obtain k t where "e = Fire k t" by (cases e) auto
  with Cons show ?case by (simp add: foreign_fire)
qed

lemma disabled_disable_el:
  "map disabled (map disable_el xs)
     = map (\<lambda>e. if matches_btn_selector e then Some ''disabled'' else disabled e) xs"
  by (induction xs) (simp_all add: disable_el_def)

lemma filter_unselected_disable:
  "filter (\<lambda>e. \<not> matches_btn_selector e) (map disable_el xs)
     = filter (\<lambda>e. \<not> matches_btn_selector e) xs"
  by (induction xs) (simp_all add: disable_el_def)

lemma stimulus_calls_append [simp]:
  "stimulus_calls (xs @ ys) = stimulus_calls xs @ stimulus_calls ys"
  by (induction xs rule: stimulus_calls.induct) simp_all

lemma stimulus_calls_listeners [simp]: "stimulus_calls (map AddClickListener ns) = []"
  by (induction ns) simp_all

lemma stimulus_calls_length_error [simp]: "stimulus_calls (length_error_calls tr cs) = []"
  by (cases "button_html tr") (simp_all add: length_error_calls_def)

lemma stimulus_calls_timer_calls [simp]: "stimulus_calls (timer_calls tr) = []"
  by (cases "stimulus_duration tr"; cases "trial_duration tr") (simp_all add: timer_calls_def)

lemma before_stimulus_append:
  "stimulus_calls xs = [] \<Longrightarrow> before_stimulus (xs @ CallStimulus c # ys) = xs"
  by (induction xs rule: stimulus_calls.induct) simp_all

lemma step_start_time [simp]: "start_time (step e s) = start_time s"
proof (cases e)
  case (Click i t)
  then show ?thesis
    by (simp add: step.simps after_response_def end_trial_eq log_call_def Let_def
        split: option.splits)
next
  case (Fire k t)
  then show ?thesis
    by (simp add: step.simps hide_stimulus_def end_trial_eq Let_def
        split: timer_cb.splits option.splits)
qed

lemma step_stimulus_calls [simp]: "stimulus_calls (calls (step e s)) = stimulus_calls (calls s)"
proof (cases e)
  case (Click i t)
  then show ?thesis
    by (simp add: step.simps after_response_def end_trial_eq log_call_def Let_def
        split: option.splits)
next
  case (Fire k t)
  then show ?thesis
    by (simp add: step.simps hide_stimulus_def end_trial_eq Let_def
        split: timer_cb.splits option.splits)
qed

lemma run_start_time [simp]: "start_time (run es s) = start_time s"
  by (induction es arbitrary: s) simp_all

lemma run_stimulus_calls [simp]: "stimulus_calls (calls (run es s)) = stimulus_calls (calls s)"
  by (induction es arbitrary: s) simp_all

subsection \<open>Two drawing functions\<close>

lemma end_trial_with_stimulus:
  "end_trial (with_stimulus g q s) = with_stimulus g q (end_trial s)"
  by (simp add: end_trial_eq with_stimulus_def)

lemma after_response_with_stimulus:
  "snd (after_response c t (with_stimulus g q s)) = with_stimulus g q (snd (after_response c t s))"
proof (cases "stimulus_div (display s)")
  case None
  then show ?thesis
    by (simp add: after_response_def with_stimulus_def log_call_def Let_def)
next
  case (Some p)
  then obtain cls vis where sd: "stimulus_div (display s) = Some (cls, vis)" by (cases p) auto
  then have sd': "stimulus_div (display (with_stimulus g q s)) = Some (cls, vis)"
    by (simp add: with_stimulus_def)
  have inner: "(with_stimulus g q s)
        \<lparr>response := (response (with_stimulus g q s))
             \<lparr>button := c, rt := Num (t - start_time (with_stimulus g q s))\<rparr>,
         display := (display (with_stimulus g q s))
             \<lparr>stimulus_div := Some (cls @ '' responded'', vis), own_btns_disabled := True,
              foreign := map disable_el (foreign (display (with_stimulus g q s)))\<rparr>,
         calls := calls (with_stimulus g q s) @ [DateNow t]\<rparr>
      = with_stimulus g q
         (s\<lparr>response := (response s)\<lparr>button := c, rt := Num (t - start_time s)\<rparr>,
            display := (display s)
              \<lparr>stimulus_div := Some (cls @ '' responded'', vis), own_btns_disabled := True,
               foreign := map disable_el (foreign (display s))\<rparr>,
            calls := calls s @ [DateNow t]\<rparr>)"
    by (simp add: with_stimulus_def)
  have r: "response_ends_trial (trial (with_stimulus g q s)) = response_ends_trial (trial s)"
    by (simp add: with_stimulus_def)
  show ?thesis
    unfolding after_response_eq [OF sd] after_response_eq [OF sd'] inner r
    by (simp add: end_trial_with_stimulus)
qed

lemma hide_stimulus_with_stimulus:
  "snd (hide_stimulus (with_stimulus g q s)) = with_stimulus g q (snd (hide_stimulus s))"
  by (cases "stimulus_div (display s)")
     (auto simp add: hide_stimulus_def with_stimulus_def)

lemma with_stimulus_timers_update:
  "(with_stimulus g q s)\<lparr>timers := ts\<rparr> = with_stimulus g q (s\<lparr>timers := ts\<rparr>)"
  by (simp add: with_stimulus_def)

lemma step_with_stimulus:
  "step e (with_stimulus g q s) = with_stimulus g q (step e s)"
proof (cases e)
  case (Click i t)
  have "display (with_stimulus g q s) = display s"
    by (simp add: with_stimulus_def)
  then show ?thesis
    by (simp add: Click step.simps after_response_with_stimulus)
next
  case (Fire k t)
  have tm: "timers (with_stimulus g q s) = timers s" by (simp add: with_stimulus_def)
  show ?thesis
    by (simp add: Fire step.simps tm Let_def with_stimulus_timers_update
        hide_stimulus_with_stimulus end_trial_with_stimulus split: timer_cb.splits)
qed

lemma run_with_stimulus:
  "run es (with_stimulus g q s) = with_stimulus g q (run es s)"
  by (induction es arbitrary: s) (simp_all add: step_with_stimulus)

lemma finish_data_relabel:
  "concat (map finish_data (map (relabel g) cs))
     = map (\<lambda>x. x\<lparr>td_stimulus := g\<rparr>) (concat (map finish_data cs))"
proof (induction cs)
  case Nil
  then show ?case by simp
next
  case (Cons c cs)
  then show ?case by (cases c) simp_all
qed

lemma finished_with_stimulus:
  "finished (with_stimulus g q s) = map (\<lambda>x. x\<lparr>td_stimulus := g\<rparr>) (finished s)"
  unfolding finished_def with_stimulus_def
  by (simp add: finish_data_relabel del: map_map)

lemma relabel_listeners [simp]:
  "map (relabel g) (map AddClickListener ns) = map AddClickListener ns"
  by (induction ns) simp_all

lemma relabel_length_error [simp]:
  "map (relabel g) (length_error_calls tr cs) = length_error_calls tr cs"
  by (cases "button_html tr") (simp_all add: length_error_calls_def)

lemma relabel_timer_calls [simp]:
  "map (relabel g) (timer_calls tr) = timer_calls tr"
  by (cases "stimulus_duration tr"; cases "trial_duration tr") (simp_all add: timer_calls_def)

lemma stimulus_irrelevant [simp]:
  "canvas_id_of (tr\<lparr>stimulus := x\<rparr>) = canvas_id_of tr"
  "canvas_of (tr\<lparr>stimulus := x\<rparr>) = canvas_of tr"
  "buttons_of (tr\<lparr>stimulus := x\<rparr>) cs = buttons_of tr cs"
  "trial_html (tr\<lparr>stimulus := x\<rparr>) cs = trial_html tr cs"
  "button_kinds (tr\<lparr>stimulus := x\<rparr>) cs = button_kinds tr cs"
  "timer_list (tr\<lparr>stimulus := x\<rparr>) now = timer_list tr now"
  "timer_calls (tr\<lparr>stimulus := x\<rparr>) = timer_calls tr"
  "length_error_calls (tr\<lparr>stimulus := x\<rparr>) cs = length_error_calls tr cs"
  by (simp_all add: canvas_id_of_def canvas_of_def canvas_setup_def buttons_of_def trial_html_def
      button_kinds_def timer_list_def timer_calls_def length_error_calls_def split: option.splits)

lemma plugin_trial_with_stimulus:
  "\<exists>q. snd (plugin_trial d (tr\<lparr>stimulus := Some f\<rparr>) now)
        = with_stimulus (Some f) q (snd (plugin_trial d (tr\<lparr>stimulus := Some g\<rparr>) now))"
proof (cases "choices tr")
  case None
  then have "snd (plugin_trial d (tr\<lparr>stimulus := Some f\<rparr>) now)
        = with_stimulus (Some f) None (snd (plugin_trial d (tr\<lparr>stimulus := Some g\<rparr>) now))"
    by (simp add: plugin_trial_no_choices init_state_def with_stimulus_def)
  then show ?thesis ..
next
  case (Some cs)
  show ?thesis
  proof (cases "length (buttons_of tr cs) = length cs")
    case False
    with Some have "snd (plugin_trial d (tr\<lparr>stimulus := Some f\<rparr>) now)
        = with_stimulus (Some f) None (snd (plugin_trial d (tr\<lparr>stimulus := Some g\<rparr>) now))"
      by (simp add: plugin_trial_short init_state_def with_stimulus_def)
    then show ?thesis ..
  next
    case True
    have cf: "choices (tr\<lparr>stimulus := Some f\<rparr>) = Some cs"
      and cg: "choices (tr\<lparr>stimulus := Some g\<rparr>) = Some cs" using Some by simp_all
    have sf: "stimulus (tr\<lparr>stimulus := Some f\<rparr>) = Some f"
      and sg: "stimulus (tr\<lparr>stimulus := Some g\<rparr>) = Some g" by simp_all
    have lf: "length (buttons_of (tr\<lparr>stimulus := Some f\<rparr>) cs) = length cs"
      and lg: "length (buttons_of (tr\<lparr>stimulus := Some g\<rparr>) cs) = length cs"
      using True by simp_all
    have "snd (plugin_trial d (tr\<lparr>stimulus := Some f\<rparr>) now)
        = with_stimulus (Some f) (Some (f (canvas_id_of tr)))
            (snd (plugin_trial d (tr\<lparr>stimulus := Some g\<rparr>) now))"
      by (simp add: plugin_trial_rendered [OF cf sf lf] plugin_trial_rendered [OF cg sg lg]
          with_stimulus_def)
    then show ?thesis ..
  qed
qed

subsection \<open>The button group\<close>

text \<open>
  A label without a dollar sign is substituted as it is, and a rendered trial holds one
  button element per choice, the \<open>i\<close>-th with index \<open>i\<close> and the markup of its own template.
\<close>

lemma get_substitution_plain:
  "CHR ''$'' \<notin> set r \<Longrightarrow> get_substitution m pre post r = r"
  by (induction m pre post r rule: get_substitution.induct) auto

lemma replace_from_plain:
  "CHR ''$'' \<notin> set label \<Longrightarrow> replace_from pat label pre rest = literal_replace pat label rest"
proof (induction pat label pre rest rule: replace_from.induct)
  case (1 pat repl pre rest)
  show ?case
  proof (cases "rest = []")
    case True
    then show ?thesis
      by (simp add: replace_from.simps literal_replace.simps)
  next
    case False
    show ?thesis
    proof (cases "pat \<noteq> [] \<and> take (length pat) rest = pat")
      case True
      from "1.IH" (1) [OF False True "1.prems"]
      have "replace_from pat repl (pre @ pat) (drop (length pat) rest)
              = literal_replace pat repl (drop (length pat) rest)" .
      then show ?thesis
        using False True "1.prems"
        by (subst replace_from.simps, subst literal_replace.simps)
           (simp add: get_substitution_plain)
    next
      case no: False
      from "1.IH" (2) [OF False no "1.prems"]
      have "replace_from pat repl (pre @ [hd rest]) (tl rest) = literal_replace pat repl (tl rest)" .
      then show ?thesis
        using False no
        by (subst replace_from.simps, subst literal_replace.simps) auto
    qed
  qed
qed

lemma replace_choice_plain:
  "CHR ''$'' \<notin> set label \<Longrightarrow> replace_choice template label = literal_replace ''%choice%'' label template"
  by (simp add: replace_choice_def replace_from_plain)

lemma length_button_group [simp]: "length (button_group mv mh bs cs) = length cs"
  by (simp add: button_group_def)

lemma nth_button_group:
  "i < length cs \<Longrightarrow>
   button_group mv mh bs cs ! i = button_div mv mh i (replace_choice (bs ! i) (cs ! i))"
  by (simp add: button_group_def)

lemma rendered_buttons:
  assumes "fst (plugin_trial d tr now) = None" and "choices tr = Some cs"
  shows "innerHTML (display (snd (plugin_trial d tr now))) =
           html_head (canvas_of tr)
           @ concat (button_group (margin_vertical tr) (margin_horizontal tr) (buttons_of tr cs) cs)
           @ ''</div>'' @ (case prompt tr of None \<Rightarrow> [] | Some p \<Rightarrow> p)"
proof -
  from plugin_trial_returns [OF assms(1)] assms(2)
  obtain f where f: "stimulus tr = Some f" and len: "length (buttons_of tr cs) = length cs"
    by auto
  show ?thesis by (simp add: rendered_fields(6) [OF assms(2) f len] trial_html_def)
qed

section \<open>The claims\<close>

subsection \<open>Claim C1\<close>

text \<open>
  Claim C1, at two trials that a response does not end, each clicked on button 0 at
  100 ms and on button 1 at 200 ms after the start. The code keeps later responses out
  only by disabling the \<^verbatim>\<open>button\<close> elements (lines 203-208); \<^verbatim>\<open>after_response\<close> itself
  has no test for an earlier response. With the default template the second click
  lands on a disabled button and the first response stays. With a template that is a
  \<^verbatim>\<open>span\<close> nothing is disabled: the second click is not ignored and overwrites the
  button and the reaction time of the first.
\<close>

theorem second_click_overwrites_without_button:
  "response (run [Click 0 1100] (snd (plugin_trial empty_page span_trial 1000)))
     = \<lparr>rt = Num 100, button = Str ''0'', stimulus_properties = Some ()\<rparr>
   \<and> response (run [Click 0 1100, Click 1 1200] (snd (plugin_trial empty_page span_trial 1000)))
     = \<lparr>rt = Num 200, button = Str ''1'', stimulus_properties = Some ()\<rparr>
   \<and> response (run [Click 0 1100, Click 1 1200] (snd (plugin_trial empty_page button_trial 1000)))
     = \<lparr>rt = Num 100, button = Str ''0'', stimulus_properties = Some ()\<rparr>"
proof -
  define s where "s = snd (plugin_trial empty_page span_trial 1000)"
  note fields = rendered_fields [OF span_trial_rendered, where d = empty_page and now = 1000, folded s_def]
  have nr: "\<not> response_ends_trial (trial s)"
    by (simp add: fields(1) span_trial_def info_defaults_def)
  have l0: "click_dispatched 0 (display s)" by (simp add: fields(12))
  have sd: "stimulus_div (display s) \<noteq> None" by (simp add: fields(5))
  note c0 = click_overwrites [OF l0 sd nr, of 1100]
  define s1 where "s1 = step (Click 0 1100) s"
  have nr1: "\<not> response_ends_trial (trial s1)" using nr by (simp add: s1_def)
  have l1: "click_dispatched 1 (display s1)"
    using c0(2,7)
    by (simp add: click_dispatched_def s1_def [symmetric] fields(4,11) span_trial_kinds)
  have sd1: "stimulus_div (display s1) \<noteq> None" using c0(3) by (simp add: s1_def)
  note c1 = click_overwrites [OF l1 sd1 nr1, of 1200]
  have r0: "response s1 = \<lparr>rt = Num 100, button = Str ''0'', stimulus_properties = Some ()\<rparr>"
    using c0(1) by (simp add: s1_def fields(2,3))
  have r1: "response (step (Click 1 1200) s1)
              = \<lparr>rt = Num 200, button = Str ''1'', stimulus_properties = Some ()\<rparr>"
    using c1(1) c0(4) r0 by (simp add: s1_def [symmetric] fields(2))
  define b where "b = snd (plugin_trial empty_page button_trial 1000)"
  note bf = rendered_fields [OF button_trial_rendered, where d = empty_page and now = 1000, folded b_def]
  have bnr: "\<not> response_ends_trial (trial b)"
    by (simp add: bf(1) button_trial_def info_defaults_def)
  have bl0: "click_dispatched 0 (display b)" by (simp add: bf(12))
  have bsd: "stimulus_div (display b) \<noteq> None" by (simp add: bf(5))
  note d0 = click_overwrites [OF bl0 bsd bnr, of 1100]
  define b1 where "b1 = step (Click 0 1100) b"
  have q0: "response b1 = \<lparr>rt = Num 100, button = Str ''0'', stimulus_properties = Some ()\<rparr>"
    using d0(1) by (simp add: b1_def bf(2,3))
  have dis: "own_btns_disabled (display b1)" using d0(6) by (simp add: b1_def)
  have kinds: "content_is_button (display b1) = [True, True]"
    using d0(7) by (simp add: b1_def bf(11) button_trial_kinds)
  have "step (Click 1 1200) b1 = b1"
    by (rule disabled_button_click_ignored [OF dis]) (simp_all add: kinds)
  then have q1: "response (step (Click 1 1200) b1)
              = \<lparr>rt = Num 100, button = Str ''0'', stimulus_properties = Some ()\<rparr>"
    using q0 by simp
  show ?thesis
    using r0 r1 q1
    by (simp add: s_def [symmetric] s1_def [symmetric] b_def [symmetric] b1_def [symmetric])
qed

subsection \<open>Claim C2\<close>

text \<open>
  Claim C2, as stated, at one template for two choices: the error is logged, then
  \<^verbatim>\<open>plugin.trial\<close> throws; the display is as it was, not a trial with zero buttons.
\<close>

theorem length_mismatch_renders_no_buttons_counterexample:
  "fst (plugin_trial empty_page short_list_trial 1000) = Some TypeError
   \<and> display (snd (plugin_trial empty_page short_list_trial 1000)) = empty_page
   \<and> calls (snd (plugin_trial empty_page short_list_trial 1000)) = [ConsoleError length_error_message]"
proof -
  have 1: "choices short_list_trial = Some [''A'', ''B'']"
    by (simp add: short_list_trial_def)
  have 2: "length (buttons_of short_list_trial [''A'', ''B'']) \<noteq> length [''A'', ''B'']"
    by (simp add: short_list_trial_def buttons_of_def)
  show ?thesis
    by (simp add: plugin_trial_short [OF 1 2] init_state_def)
qed

text \<open>
  Claim C2, amended. When the per-choice template list and the choice list differ in
  length, the error is logged first. If there is at least one choice, building the first
  button then throws a TypeError: nothing is written to the display, no button is
  rendered, no timer is set. Only with an empty choice list does rendering go on, and
  the markup assigned to the display has an empty button group.
\<close>

theorem length_mismatch_logs_then_throws:
  assumes "button_html tr = PerChoice bs" and "choices tr = Some cs"
    and "length bs \<noteq> length cs"
  shows "(cs \<noteq> [] \<longrightarrow>
            fst (plugin_trial d tr now) = Some TypeError
          \<and> calls (snd (plugin_trial d tr now)) = [ConsoleError length_error_message]
          \<and> display (snd (plugin_trial d tr now)) = d
          \<and> timers (snd (plugin_trial d tr now)) = [])
       \<and> (cs = [] \<longrightarrow>
            take 2 (calls (snd (plugin_trial d tr now)))
              = [ConsoleError length_error_message,
                 SetInnerHTML (html_head (canvas_of tr) @ ''</div>''
                               @ (case prompt tr of None \<Rightarrow> [] | Some p \<Rightarrow> p))]
          \<and> innerHTML (display (snd (plugin_trial d tr now)))
              = html_head (canvas_of tr) @ ''</div>''
                @ (case prompt tr of None \<Rightarrow> [] | Some p \<Rightarrow> p))"
proof (intro conjI impI)
  assume ne: "cs \<noteq> []"
  have len: "length (buttons_of tr cs) \<noteq> length cs"
    using assms(1,3) ne by (simp add: buttons_of_def)
  note eq = plugin_trial_short [OF assms(2) len, of d now]
  show "fst (plugin_trial d tr now) = Some TypeError" by (simp add: eq)
  show "calls (snd (plugin_trial d tr now)) = [ConsoleError length_error_message]"
    by (simp add: eq)
  show "display (snd (plugin_trial d tr now)) = d" by (simp add: eq init_state_def)
  show "timers (snd (plugin_trial d tr now)) = []" by (simp add: eq init_state_def)
next
  assume e: "cs = []"
  have len: "length (buttons_of tr cs) = length cs"
    using assms(1,3) e by (simp add: buttons_of_def)
  have lec: "length_error_calls tr cs = [ConsoleError length_error_message]"
    using assms(1,3) by (simp add: length_error_calls_def)
  have html: "trial_html tr cs = html_head (canvas_of tr) @ ''</div>''
                @ (case prompt tr of None \<Rightarrow> [] | Some p \<Rightarrow> p)"
    using e by (simp add: trial_html_def button_group_def)
  have both: "take 2 (calls (snd (plugin_trial d tr now)))
              = [ConsoleError length_error_message, SetInnerHTML (trial_html tr cs)]
          \<and> innerHTML (display (snd (plugin_trial d tr now))) = trial_html tr cs"
  proof (cases "stimulus tr")
    case None
    show ?thesis by (simp add: plugin_trial_no_stimulus [OF assms(2) None len] lec)
  next
    case (Some f)
    show ?thesis by (simp add: plugin_trial_rendered [OF assms(2) Some len] lec)
  qed
  from both show "take 2 (calls (snd (plugin_trial d tr now)))
              = [ConsoleError length_error_message,
                 SetInnerHTML (html_head (canvas_of tr) @ ''</div>''
                               @ (case prompt tr of None \<Rightarrow> [] | Some p \<Rightarrow> p))]"
    by (simp only: html)
  from both show "innerHTML (display (snd (plugin_trial d tr now)))
              = html_head (canvas_of tr) @ ''</div>''
                @ (case prompt tr of None \<Rightarrow> [] | Some p \<Rightarrow> p)"
    by (simp only: html)
qed

theorem length_mismatch_logs_then_throws_witness:
  "button_html short_list_trial = PerChoice [default_button_html]
   \<and> choices short_list_trial = Some [''A'', ''B'']
   \<and> length [default_button_html] \<noteq> length [''A'', ''B'']
   \<and> [''A'', ''B''] \<noteq> []
   \<and> fst (plugin_trial empty_page short_list_trial 1000) = Some TypeError
   \<and> display (snd (plugin_trial empty_page short_list_trial 1000)) = empty_page
   \<and> button_html (short_list_trial\<lparr>choices := Some []\<rparr>) = PerChoice [default_button_html]
   \<and> choices (short_list_trial\<lparr>choices := Some []\<rparr>) = Some []
   \<and> length [default_button_html] \<noteq> length ([] :: string list)
   \<and> innerHTML (display (snd (plugin_trial empty_page (short_list_trial\<lparr>choices := Some []\<rparr>) 1000)))
       = html_head (canvas_of (short_list_trial\<lparr>choices := Some []\<rparr>)) @ ''</div>''"
proof -
  let ?tr = "short_list_trial\<lparr>choices := Some []\<rparr>"
  have 1: "button_html short_list_trial = PerChoice [default_button_html]"
    by (simp add: short_list_trial_def)
  have 2: "choices short_list_trial = Some [''A'', ''B'']"
    by (simp add: short_list_trial_def)
  have 3: "length [default_button_html] \<noteq> length [''A'', ''B'']" by simp
  have 4: "button_html ?tr = PerChoice [default_button_html]"
    by (simp add: short_list_trial_def)
  have 5: "choices ?tr = Some []" by simp
  have 6: "length [default_button_html] \<noteq> length ([] :: string list)" by simp
  have 7: "[''A'', ''B''] \<noteq> []" by simp
  have p: "prompt ?tr = None" by (simp add: short_list_trial_def info_defaults_def)
  show ?thesis
    using 1 2 3 4 5 6 7
      length_mismatch_logs_then_throws [OF 1 2 3, of empty_page 1000]
      length_mismatch_logs_then_throws [OF 4 5 6, of empty_page 1000]
    by (simp add: p)
qed

subsection \<open>Claim C3\<close>

text \<open>
  Claim C3, at a label with two dollar signs. Substituting the label "$$10" for the
  placeholder of the default template gives a button that reads "$$10"; the call of
  \<^verbatim>\<open>replace\<close> on line 161 gives one that reads "$10", and that is the markup in the
  display after rendering.
\<close>

theorem dollar_label_not_substituted_literally:
  \<open>literal_replace ''%choice%'' ''$$10'' default_button_html
     = ''<button class="jspsych-btn">$$10</button>''
   \<and> replace_choice default_button_html ''$$10'' = ''<button class="jspsych-btn">$10</button>''
   \<and> innerHTML (display (snd (plugin_trial empty_page dollar_trial 1000)))
     = html_head (canvas_of dollar_trial)
       @ button_div ''0px'' ''8px'' 0 ''<button class="jspsych-btn">$10</button>''
       @ ''</div>''\<close>
proof -
  have a: \<open>literal_replace ''%choice%'' ''$$10'' default_button_html
     = ''<button class="jspsych-btn">$$10</button>''\<close>
    by (simp add: default_button_html_def literal_replace.simps)
  have b: \<open>replace_choice default_button_html ''$$10'' = ''<button class="jspsych-btn">$10</button>''\<close>
    by (simp add: default_button_html_def replace_choice_def replace_from.simps)
  have 1: "choices dollar_trial = Some [''$$10'']" by (simp add: dollar_trial_def)
  have 2: "stimulus dollar_trial = Some (\<lambda>c. ())" by (simp add: dollar_trial_def)
  have 3: "length (buttons_of dollar_trial [''$$10'']) = length [''$$10'']"
    by (simp add: dollar_trial_def info_defaults_def buttons_of_def)
  have h: "innerHTML (display (snd (plugin_trial empty_page dollar_trial 1000)))
             = trial_html dollar_trial [''$$10'']"
    by (rule rendered_fields(6) [OF 1 2 3])
  have t: \<open>trial_html dollar_trial [''$$10'']
     = html_head (canvas_of dollar_trial)
       @ button_div ''0px'' ''8px'' 0 ''<button class="jspsych-btn">$10</button>''
       @ ''</div>''\<close>
    using b
    by (simp add: trial_html_def button_group_def buttons_of_def dollar_trial_def
        info_defaults_def)
  have c: \<open>innerHTML (display (snd (plugin_trial empty_page dollar_trial 1000)))
     = html_head (canvas_of dollar_trial)
       @ button_div ''0px'' ''8px'' 0 ''<button class="jspsych-btn">$10</button>''
       @ ''</div>''\<close>
    using h t by (rule trans)
  show ?thesis using a b c by (simp only: simp_thms)
qed

subsection \<open>Claim C4\<close>

text \<open>
  Claim C4, as stated, at the scenario's input: rendered at time 1000 and clicked on
  button 1 at time 1450, the trial does not hand the number 1 to the completion sink.
\<close>

theorem confidence_click_button_is_number_counterexample:
  "map td_button_pressed
     (finished (run [Click 1 1450] (snd (plugin_trial empty_page confidence_trial 1000))))
   \<noteq> [Num 1]"
proof -
  have "response_ends_trial confidence_trial"
    by (simp add: confidence_trial_def info_defaults_def)
  then show ?thesis
    using rendered_click [OF confidence_trial_rendered, of 1 1450 "[]" empty_page 1000]
    by simp
qed

text \<open>
  Claim C4, amended. In the confidence scenario (choices "Low confidence" and "High
  confidence", a trial duration of 2000 ms, response-ends-trial set), a click on button 1
  at 450 ms after the start timestamp hands one record to the completion sink: its
  reaction time is the number 450 and its button is the string "1", the text of the
  clicked element's \<^verbatim>\<open>data-choice\<close> attribute.
\<close>

theorem confidence_click_result:
  "finished (run [Click 1 (now + 450)]
     (snd (plugin_trial d
        (info_defaults\<lparr>stimulus := Some f,
                       choices := Some [''Low confidence'', ''High confidence''],
                       trial_duration := Some 2000\<rparr>) now)))
   = [\<lparr>td_rt = Num 450, td_stimulus = Some f, td_button_pressed = Str ''1''\<rparr>]"
proof -
  let ?tr = "info_defaults\<lparr>stimulus := Some f,
                       choices := Some [''Low confidence'', ''High confidence''],
                       trial_duration := Some 2000\<rparr>"
  have 1: "choices ?tr = Some [''Low confidence'', ''High confidence'']" by simp
  have 2: "stimulus ?tr = Some f" by simp
  have 3: "length (buttons_of ?tr [''Low confidence'', ''High confidence''])
            = length [''Low confidence'', ''High confidence'']"
    by (simp add: buttons_of_def info_defaults_def)
  have 4: "response_ends_trial ?tr" by (simp add: info_defaults_def)
  show ?thesis
    using rendered_click [OF 1 2 3 _ 4, of 1 "now + 450" "[]" d now] by simp
qed

subsection \<open>Claim C5\<close>

text \<open>
  Claim C5. A trial with a duration cap \<open>D\<close> and response-ends-trial set is rendered at
  time \<open>now\<close>. Up to the click only timers fire, all before \<open>now + D\<close>, and a button is
  clicked at a time \<open>t\<close> before \<open>now + D\<close>. Then, whatever the browser does afterwards
  (later clicks, attempts to fire timers at any time), the completion sink has been
  called exactly once, with the reaction time and the button of that click and not with
  a null response; \<^verbatim>\<open>clearAllTimeouts\<close> has been called and no timer of the trial is
  pending, so the duration timer never fires.
\<close>

theorem click_before_cap_cancels_timers:
  assumes "fst (plugin_trial d tr now) = None"
    and "choices tr = Some cs" and "i < length cs"
    and "trial_duration tr = Some D" and "response_ends_trial tr"
    and "\<forall>e\<in>set es1. is_fire e \<and> event_time e < now + D" and "t < now + D"
  shows "finished (run (es1 @ Click i t # es2) (snd (plugin_trial d tr now))) =
           [\<lparr>td_rt = Num (t - now), td_stimulus = stimulus tr, td_button_pressed = Str (show_nat i)\<rparr>]
       \<and> timers (run (es1 @ Click i t # es2) (snd (plugin_trial d tr now))) = []
       \<and> ClearAllTimeouts \<in> set (calls (run (es1 @ Click i t # es2) (snd (plugin_trial d tr now))))"
proof -
  from plugin_trial_returns [OF assms(1)] assms(2)
  obtain f where f: "stimulus tr = Some f" and len: "length (buttons_of tr cs) = length cs"
    by auto
  define s where "s = snd (plugin_trial d tr now)"
  note fields = rendered_fields [OF assms(2) f len, where d = d and now = now, folded s_def]
  have tm: "\<forall>x\<in>set (timers s). snd x = EndTrial \<longrightarrow> now + D \<le> fst x"
    using assms(4) by (auto simp add: fields(8) timer_list_def split: option.splits)
  have sd: "stimulus_div (display s) \<noteq> None" by (simp add: fields(5))
  define s1 where "s1 = run es1 s"
  note keep = early_fires_keep [OF assms(6) tm sd, of i, folded s1_def]
  have l1: "click_dispatched i (display s1)" using keep assms(3) by (simp add: fields(12))
  have sd1: "stimulus_div (display s1) \<noteq> None" using keep by simp
  have r1: "response_ends_trial (trial s1)" using keep assms(5) by (simp add: fields(1))
  note click = click_ends_trial [OF l1 sd1 r1, of t]
  define s2 where "s2 = step (Click i t) s1"
  have fin1: "finished s1 = []"
    using keep fields(9) by (simp add: finished_def)
  have fin2: "finished s2 =
      [\<lparr>td_rt = Num (t - now), td_stimulus = stimulus tr, td_button_pressed = Str (show_nat i)\<rparr>]"
    using click(1) keep fin1 by (simp add: s2_def fields(1,2))
  have clr: "ClearAllTimeouts \<in> set (calls s2)"
  proof -
    from sd1 obtain cls vis where "stimulus_div (display s1) = Some (cls, vis)"
      by (cases "stimulus_div (display s1)") auto
    then show ?thesis using l1 r1 by (simp add: s2_def step.simps after_response_eq end_trial_eq)
  qed
  have "run (es1 @ Click i t # es2) s = run es2 s2" by (simp add: run_append s1_def s2_def)
  also have "\<dots> = s2" using click(2,3) unfolding s2_def by (rule run_finished_state)
  finally show ?thesis using fin2 click(2) clr by (simp add: s_def s2_def)
qed

theorem click_before_cap_cancels_timers_witness:
  "fst (plugin_trial empty_page (confidence_trial\<lparr>stimulus_duration := Some 300\<rparr>) 1000) = None
   \<and> is_fire (Fire 0 1300) \<and> event_time (Fire 0 1300) < 1000 + 2000
   \<and> (1::nat) < length [''Low confidence'', ''High confidence''] \<and> (1450::int) < 1000 + 2000
   \<and> finished (run ([Fire 0 1300] @ Click 1 1450 # [Fire 0 3000, Click 0 3100])
        (snd (plugin_trial empty_page (confidence_trial\<lparr>stimulus_duration := Some 300\<rparr>) 1000))) =
       [\<lparr>td_rt = Num 450, td_stimulus = Some (\<lambda>c. ()), td_button_pressed = Str ''1''\<rparr>]
   \<and> timers (run ([Fire 0 1300] @ Click 1 1450 # [Fire 0 3000, Click 0 3100])
        (snd (plugin_trial empty_page (confidence_trial\<lparr>stimulus_duration := Some 300\<rparr>) 1000))) = []"
proof -
  let ?tr = "confidence_trial\<lparr>stimulus_duration := Some 300\<rparr>"
  have ok: "fst (plugin_trial empty_page ?tr 1000) = None"
    by (subst plugin_trial_rendered [where cs = "[''Low confidence'', ''High confidence'']" and f = "\<lambda>c. ()"])
       (simp_all add: confidence_trial_def info_defaults_def buttons_of_def)
  have fires: "\<forall>e\<in>set [Fire 0 1300]. is_fire e \<and> event_time e < 1000 + 2000" by simp
  show ?thesis
    using ok fires
      click_before_cap_cancels_timers [OF ok, of "[''Low confidence'', ''High confidence'']" 1 2000
        "[Fire 0 1300]" 1450 "[Fire 0 3000, Click 0 3100]"]
    by (simp add: confidence_trial_def info_defaults_def show_nat.simps digit_char_def)
qed

subsection \<open>Claim C6\<close>

text \<open>
  Claim C6, as stated, at the confidence scenario: the clock is read, and the start
  timestamp set, strictly before the drawing function is called, so the call comes
  later than the capture.
\<close>

theorem clock_read_before_drawing_counterexample:
  "DateNow 1000 \<in> set (before_stimulus (calls (snd (plugin_trial empty_page confidence_trial 1000))))
   \<and> start_time (snd (plugin_trial empty_page confidence_trial 1000)) = 1000"
proof -
  have "before_stimulus (calls (snd (plugin_trial empty_page confidence_trial 1000))) =
    length_error_calls confidence_trial [''Low confidence'', ''High confidence'']
    @ [SetInnerHTML (trial_html confidence_trial [''Low confidence'', ''High confidence'']), DateNow 1000]
    @ map AddClickListener [0..<length [''Low confidence'', ''High confidence'']]"
    using before_stimulus_append [of "length_error_calls confidence_trial [''Low confidence'', ''High confidence'']
    @ [SetInnerHTML (trial_html confidence_trial [''Low confidence'', ''High confidence'']), DateNow 1000]
    @ map AddClickListener [0..<length [''Low confidence'', ''High confidence'']]"
        "canvas_id_of confidence_trial" "timer_calls confidence_trial"]
    by (simp add: plugin_trial_rendered [OF confidence_trial_rendered] del: upt_Suc)
  then show ?thesis
    by (simp add: rendered_fields(2) [OF confidence_trial_rendered])
qed

text \<open>
  Claim C6, amended. When \<^verbatim>\<open>plugin.trial\<close> returns, the drawing function has been called
  exactly once, with the id of the stimulus canvas, and no later event calls it again.
  The start timestamp is the clock value read right after the display's markup was
  assigned; the click listeners are attached and the drawing function is called after
  that reading, so the reaction time runs from the end of markup rendering and includes
  both.
\<close>

theorem drawing_called_once_after_clock_read:
  assumes "fst (plugin_trial d tr now) = None" and "choices tr = Some cs"
  shows "stimulus_calls (calls (run es (snd (plugin_trial d tr now)))) = [canvas_id_of tr]
       \<and> start_time (run es (snd (plugin_trial d tr now))) = now
       \<and> before_stimulus (calls (snd (plugin_trial d tr now))) =
           length_error_calls tr cs @ [SetInnerHTML (trial_html tr cs), DateNow now]
           @ map AddClickListener [0..<length cs]"
proof -
  from plugin_trial_returns [OF assms(1)] assms(2)
  obtain f where f: "stimulus tr = Some f" and len: "length (buttons_of tr cs) = length cs"
    by auto
  note eq = plugin_trial_rendered [OF assms(2) f len, of d now]
  have a: "stimulus_calls (calls (snd (plugin_trial d tr now))) = [canvas_id_of tr]"
    by (simp add: eq)
  have b: "before_stimulus (calls (snd (plugin_trial d tr now))) =
           length_error_calls tr cs @ [SetInnerHTML (trial_html tr cs), DateNow now]
           @ map AddClickListener [0..<length cs]"
    using before_stimulus_append [of "length_error_calls tr cs @ [SetInnerHTML (trial_html tr cs), DateNow now]
           @ map AddClickListener [0..<length cs]" "canvas_id_of tr" "timer_calls tr"]
    by (simp add: eq)
  show ?thesis using a b by (simp add: rendered_fields(2) [OF assms(2) f len])
qed

theorem drawing_called_once_after_clock_read_witness:
  "fst (plugin_trial empty_page confidence_trial 1000) = None
   \<and> choices confidence_trial = Some [''Low confidence'', ''High confidence'']
   \<and> stimulus_calls (calls (run [Click 1 1450, Fire 0 3000]
        (snd (plugin_trial empty_page confidence_trial 1000)))) = [''jspsych-canvas-button-response-canvas'']
   \<and> start_time (run [Click 1 1450, Fire 0 3000]
        (snd (plugin_trial empty_page confidence_trial 1000))) = 1000"
proof -
  have ok: "fst (plugin_trial empty_page confidence_trial 1000) = None"
    by (simp add: plugin_trial_rendered [OF confidence_trial_rendered])
  have cid: "canvas_id_of confidence_trial = ''jspsych-canvas-button-response-canvas''"
    by (simp add: canvas_id_of_def confidence_trial_def info_defaults_def default_canvas_id_def)
  show ?thesis
    using ok confidence_trial_rendered(1) cid
      drawing_called_once_after_clock_read [OF ok confidence_trial_rendered(1),
        of "[Click 1 1450, Fire 0 3000]"]
    by (simp only: simp_thms)
qed

subsection \<open>Claim C7\<close>

text \<open>
  Claim C7, as stated, at a page that holds a button of another widget outside the
  display element: after a click on button 0 that foreign button carries the attribute
  \<^verbatim>\<open>disabled\<close>, written by the loop of lines 204-208.
\<close>

theorem writes_outside_container_counterexample:
  "foreign page_with_other_button =
     [\<lparr>el_name = ''submit-button-of-another-widget'', matches_btn_selector = True,
       disabled = None\<rparr>]
   \<and> foreign (display (run [Click 0 1100]
        (snd (plugin_trial page_with_other_button confidence_trial 1000)))) =
     [\<lparr>el_name = ''submit-button-of-another-widget'', matches_btn_selector = True,
       disabled = Some ''disabled''\<rparr>]"
proof -
  define s where "s = snd (plugin_trial page_with_other_button confidence_trial 1000)"
  note fields = rendered_fields [OF confidence_trial_rendered, where d = page_with_other_button and now = 1000,
      folded s_def]
  have sd: "stimulus_div (display s) \<noteq> None" by (simp add: fields(5))
  have cd: "click_dispatched 0 (display s)" by (simp add: fields(12))
  have "foreign (display (step (Click 0 1100) s)) = map disable_el (foreign (display s))"
    using sd cd by (simp add: foreign_click)
  then have a: "foreign (display (run [Click 0 1100] s)) =
     [\<lparr>el_name = ''submit-button-of-another-widget'', matches_btn_selector = True,
       disabled = Some ''disabled''\<rparr>]"
    by (simp add: fields(7) page_with_other_button_def disable_el_def)
  have b: "foreign page_with_other_button =
     [\<lparr>el_name = ''submit-button-of-another-widget'', matches_btn_selector = True,
       disabled = None\<rparr>]"
    by (simp add: page_with_other_button_def)
  show ?thesis using a b by (simp only: s_def simp_thms)
qed

text \<open>
  Claim C7, amended. What the widget writes outside the display element, operation by
  operation:
  \<^item> rendering, \<^verbatim>\<open>end_trial\<close>, the hiding of the stimulus and every timer that fires
    write nothing outside the display element;
  \<^item> \<^verbatim>\<open>after_response\<close>, when the stimulus element is there, sets the attribute
    \<^verbatim>\<open>disabled\<close> on every element of the whole document that the selector
    \<^verbatim>\<open>.jspsych-canvas-button-response-button button\<close> selects, outside the display element
    as inside, and changes no other element and no other attribute; so does a click that
    is dispatched, and a click that is not dispatched writes nothing.
  Over a whole trial: a run in which only timers fire leaves the outside elements as they
  were; from the first click on a rendered button on, they are the outside elements of
  the page with the selected ones disabled; and an element that the selector does not
  select is never changed.
\<close>

theorem writes_outside_container_only_disable:
  "foreign (display (snd (plugin_trial d tr now))) = foreign d
   \<and> foreign (display (end_trial s)) = foreign (display s)
   \<and> foreign (display (snd (hide_stimulus s))) = foreign (display s)
   \<and> foreign (display (step (Fire k t) s)) = foreign (display s)
   \<and> foreign (display (snd (after_response c t s))) =
       (case stimulus_div (display s) of
          None \<Rightarrow> foreign (display s)
        | Some p \<Rightarrow> map disable_el (foreign (display s)))
   \<and> foreign (display (step (Click i t) s)) =
       (if click_dispatched i (display s) \<and> stimulus_div (display s) \<noteq> None
        then map disable_el (foreign (display s))
        else foreign (display s))
   \<and> map disabled (map disable_el xs)
       = map (\<lambda>e. if matches_btn_selector e then Some ''disabled'' else disabled e) xs
   \<and> map el_name (map disable_el xs) = map el_name xs
   \<and> map matches_btn_selector (map disable_el xs) = map matches_btn_selector xs
   \<and> ((\<forall>e\<in>set es. is_fire e) \<longrightarrow> foreign (display (run es s)) = foreign (display s))
   \<and> (fst (plugin_trial d tr now) = None \<and> choices tr = Some cs \<and> i < length cs \<longrightarrow>
        foreign (display (run (Click i t # es) (snd (plugin_trial d tr now))))
          = map disable_el (foreign d))
   \<and> (foreign (display (run es s)) = foreign (display s)
      \<or> foreign (display (run es s)) = map disable_el (foreign (display s)))
   \<and> filter (\<lambda>e. \<not> matches_btn_selector e) (foreign (display (run es s)))
       = filter (\<lambda>e. \<not> matches_btn_selector e) (foreign (display s))"
proof -
  have names: "map el_name (map disable_el xs) = map el_name xs"
    by (induction xs) (simp_all add: disable_el_def)
  have sel: "map matches_btn_selector (map disable_el xs) = map matches_btn_selector xs"
    by (induction xs) (simp_all add: disable_el_def)
  have fires: "(\<forall>e\<in>set es. is_fire e) \<longrightarrow> foreign (display (run es s)) = foreign (display s)"
    by (simp add: foreign_fires)
  have first_click: "fst (plugin_trial d tr now) = None \<and> choices tr = Some cs \<and> i < length cs \<longrightarrow>
        foreign (display (run (Click i t # es) (snd (plugin_trial d tr now))))
          = map disable_el (foreign d)"
  proof
    assume a: "fst (plugin_trial d tr now) = None \<and> choices tr = Some cs \<and> i < length cs"
    then have ok: "fst (plugin_trial d tr now) = None" and cs: "choices tr = Some cs"
      and i: "i < length cs" by simp_all
    from plugin_trial_returns [OF ok] cs
    obtain f where f: "stimulus tr = Some f" and len: "length (buttons_of tr cs) = length cs"
      by auto
    define r where "r = snd (plugin_trial d tr now)"
    note fields = rendered_fields [OF cs f len, where d = d and now = now, folded r_def]
    have sd: "stimulus_div (display r) \<noteq> None" by (simp add: fields(5))
    have cd: "click_dispatched i (display r)" using i by (simp add: fields(12))
    have one: "foreign (display (step (Click i t) r)) = map disable_el (foreign d)"
      using sd cd by (simp add: foreign_click fields(7))
    from foreign_run [of es "step (Click i t) r"]
    have "foreign (display (run es (step (Click i t) r))) = map disable_el (foreign d)"
      by (auto simp add: one comp_def)
    then show "foreign (display (run (Click i t # es) (snd (plugin_trial d tr now))))
          = map disable_el (foreign d)"
      by (simp add: r_def)
  qed
  have bound: "foreign (display (run es s)) = foreign (display s)
      \<or> foreign (display (run es s)) = map disable_el (foreign (display s))"
    by (rule foreign_run)
  have unselected: "filter (\<lambda>e. \<not> matches_btn_selector e) (foreign (display (run es s)))
       = filter (\<lambda>e. \<not> matches_btn_selector e) (foreign (display s))"
    using bound by (auto simp add: filter_unselected_disable)
  show ?thesis
    using foreign_plugin_trial [of d tr now] foreign_end_trial [of s]
      foreign_hide_stimulus [of s] foreign_fire [of k t s] foreign_after_response [of c t s]
      foreign_click [of i t s] disabled_disable_el [of xs] names sel fires first_click
      bound unselected
    by (intro conjI) assumption+
qed

theorem writes_outside_container_only_disable_witness:
  "is_fire (Fire 0 3000)
   \<and> foreign (display (run [Fire 0 3000]
        (snd (plugin_trial page_with_other_button confidence_trial 1000))))
       = foreign page_with_other_button
   \<and> fst (plugin_trial page_with_other_button confidence_trial 1000) = None
   \<and> choices confidence_trial = Some [''Low confidence'', ''High confidence'']
   \<and> (1::nat) < length [''Low confidence'', ''High confidence'']
   \<and> foreign (display (run (Click 1 1450 # [Fire 0 3000])
        (snd (plugin_trial page_with_other_button confidence_trial 1000))))
       = map disable_el (foreign page_with_other_button)"
proof -
  have ok: "fst (plugin_trial page_with_other_button confidence_trial 1000) = None"
    by (simp add: plugin_trial_rendered [OF confidence_trial_rendered])
  have fr: "\<forall>e\<in>set [Fire 0 3000]. is_fire e" by simp
  have f0: "foreign (display (snd (plugin_trial page_with_other_button confidence_trial 1000)))
              = foreign page_with_other_button"
    by (rule rendered_fields(7) [OF confidence_trial_rendered])
  let ?s = "snd (plugin_trial page_with_other_button confidence_trial 1000)"
  have "(\<forall>e\<in>set [Fire 0 3000]. is_fire e) \<longrightarrow>
          foreign (display (run [Fire 0 3000] ?s)) = foreign (display ?s)"
    by (rule writes_outside_container_only_disable [where es = "[Fire 0 3000]" and s = ?s,
          THEN conjunct2, THEN conjunct2, THEN conjunct2, THEN conjunct2, THEN conjunct2, THEN conjunct2, THEN conjunct2, THEN conjunct2, THEN conjunct2, THEN conjunct1])
  with fr f0 have a: "foreign (display (run [Fire 0 3000] ?s)) = foreign page_with_other_button"
    by simp
  have "fst (plugin_trial page_with_other_button confidence_trial 1000) = None
        \<and> choices confidence_trial = Some [''Low confidence'', ''High confidence'']
        \<and> 1 < length [''Low confidence'', ''High confidence''] \<longrightarrow>
        foreign (display (run (Click 1 1450 # [Fire 0 3000]) ?s))
          = map disable_el (foreign page_with_other_button)"
    by (rule writes_outside_container_only_disable [where d = page_with_other_button
          and tr = confidence_trial and now = 1000 and i = 1 and t = 1450
          and es = "[Fire 0 3000]" and cs = "[''Low confidence'', ''High confidence'']",
          THEN conjunct2, THEN conjunct2, THEN conjunct2, THEN conjunct2, THEN conjunct2, THEN conjunct2, THEN conjunct2, THEN conjunct2, THEN conjunct2, THEN conjunct2, THEN conjunct1])
  with ok confidence_trial_rendered(1)
  have b: "foreign (display (run (Click 1 1450 # [Fire 0 3000]) ?s))
          = map disable_el (foreign page_with_other_button)"
    by simp
  have len: "(1::nat) < length [''Low confidence'', ''High confidence'']" by simp
  have isf: "is_fire (Fire 0 3000)" by simp
  show ?thesis
    using isf a ok confidence_trial_rendered(1) len b by (intro conjI) assumption+
qed

subsection \<open>Claim C8\<close>

text \<open>
  Claim C8, as stated, at the confidence scenario: the caller leaves \<^verbatim>\<open>canvasId\<close> at
  \<^verbatim>\<open>false\<close>, and after rendering the trial object holds the default canvas id.
\<close>

theorem trial_object_unchanged_counterexample:
  "canvasId (trial (snd (plugin_trial empty_page confidence_trial 1000)))
     = Some ''jspsych-canvas-button-response-canvas''
   \<and> canvasId confidence_trial = None"
  by (simp add: trial_plugin_trial canvas_id_of_def default_canvas_id_def confidence_trial_def
      info_defaults_def)

text \<open>
  Claim C8, amended. From the call of \<^verbatim>\<open>plugin.trial\<close> to the end of any sequence of
  clicks and timers, the trial object is the one the host supplied except for the field
  \<^verbatim>\<open>canvasId\<close>: rendering overwrites it with the default id when the host left it
  \<^verbatim>\<open>false\<close>, and leaves the host's value otherwise. No other field is written.
\<close>

theorem trial_object_only_canvasId_written:
  "trial (run es (snd (plugin_trial d tr now))) = tr\<lparr>canvasId := Some (canvas_id_of tr)\<rparr>"
  by (simp add: trial_plugin_trial)

subsection \<open>Claim C9\<close>

text \<open>
  Claim C9, as stated, at the confidence scenario without a drawing function:
  \<^verbatim>\<open>plugin.trial\<close> throws, but the markup is already in the display and both click
  listeners are attached.
\<close>

theorem missing_callback_fails_before_render_counterexample:
  "fst (plugin_trial empty_page (confidence_trial\<lparr>stimulus := None\<rparr>) 1000) = Some TypeError
   \<and> innerHTML (display (snd (plugin_trial empty_page (confidence_trial\<lparr>stimulus := None\<rparr>) 1000)))
       \<noteq> innerHTML empty_page
   \<and> listeners (display (snd (plugin_trial empty_page (confidence_trial\<lparr>stimulus := None\<rparr>) 1000)))
       = [0, 1]"
proof -
  let ?tr = "confidence_trial\<lparr>stimulus := None\<rparr>"
  let ?cs = "[''Low confidence'', ''High confidence'']"
  have 1: "choices ?tr = Some ?cs" by (simp add: confidence_trial_def)
  have 2: "stimulus ?tr = None" by simp
  have 3: "length (buttons_of ?tr ?cs) = length ?cs"
    by (simp add: confidence_trial_def info_defaults_def buttons_of_def)
  have e: "innerHTML empty_page = []" by (simp add: empty_page_def)
  show ?thesis
    by (simp add: plugin_trial_no_stimulus [OF 1 2 3] e trial_html_nonempty)
qed

text \<open>
  Claim C9, amended. Without a choice list \<^verbatim>\<open>plugin.trial\<close> throws a TypeError before
  it writes anything: the display is untouched, nothing is logged, no timer is set.
  Without a drawing function (the choices and templates being in order) it throws a
  TypeError as well, but only after the display's markup has been replaced and the click
  listeners attached; no timer is set.
\<close>

theorem missing_fields_throw:
  "(choices tr = None \<longrightarrow>
      fst (plugin_trial d tr now) = Some TypeError
      \<and> display (snd (plugin_trial d tr now)) = d
      \<and> calls (snd (plugin_trial d tr now)) = []
      \<and> timers (snd (plugin_trial d tr now)) = [])
   \<and> (choices tr = Some cs \<and> length (buttons_of tr cs) = length cs \<and> stimulus tr = None \<longrightarrow>
      fst (plugin_trial d tr now) = Some TypeError
      \<and> innerHTML (display (snd (plugin_trial d tr now))) = trial_html tr cs
      \<and> listeners (display (snd (plugin_trial d tr now))) = [0..<length cs]
      \<and> timers (snd (plugin_trial d tr now)) = [])"
proof (intro conjI impI)
  assume "choices tr = None"
  note eq = plugin_trial_no_choices [OF this, of d now]
  show "fst (plugin_trial d tr now) = Some TypeError" by (simp add: eq)
  show "display (snd (plugin_trial d tr now)) = d" by (simp add: eq init_state_def)
  show "calls (snd (plugin_trial d tr now)) = []" by (simp add: eq init_state_def)
  show "timers (snd (plugin_trial d tr now)) = []" by (simp add: eq init_state_def)
next
  assume a: "choices tr = Some cs \<and> length (buttons_of tr cs) = length cs \<and> stimulus tr = None"
  then have 1: "choices tr = Some cs" and 2: "stimulus tr = None"
    and 3: "length (buttons_of tr cs) = length cs" by simp_all
  note eq = plugin_trial_no_stimulus [OF 1 2 3, of d now]
  show "fst (plugin_trial d tr now) = Some TypeError" by (simp add: eq)
  show "innerHTML (display (snd (plugin_trial d tr now))) = trial_html tr cs" by (simp add: eq)
  show "listeners (display (snd (plugin_trial d tr now))) = [0..<length cs]" by (simp add: eq)
  show "timers (snd (plugin_trial d tr now)) = []" by (simp add: eq)
qed

theorem missing_fields_throw_witness:
  "choices (confidence_trial\<lparr>choices := None\<rparr>) = None
   \<and> fst (plugin_trial empty_page (confidence_trial\<lparr>choices := None\<rparr>) 1000) = Some TypeError
   \<and> display (snd (plugin_trial empty_page (confidence_trial\<lparr>choices := None\<rparr>) 1000)) = empty_page
   \<and> choices (confidence_trial\<lparr>stimulus := None\<rparr>) = Some [''Low confidence'', ''High confidence'']
   \<and> length (buttons_of (confidence_trial\<lparr>stimulus := None\<rparr>) [''Low confidence'', ''High confidence''])
       = length [''Low confidence'', ''High confidence'']
   \<and> stimulus (confidence_trial\<lparr>stimulus := None\<rparr>) = None
   \<and> fst (plugin_trial empty_page (confidence_trial\<lparr>stimulus := None\<rparr>) 1000) = Some TypeError
   \<and> timers (snd (plugin_trial empty_page (confidence_trial\<lparr>stimulus := None\<rparr>) 1000)) = []"
proof -
  let ?tr = "confidence_trial\<lparr>stimulus := None\<rparr>"
  let ?cs = "[''Low confidence'', ''High confidence'']"
  have 0: "choices (confidence_trial\<lparr>choices := None\<rparr>) = None" by simp
  have 1: "choices ?tr = Some ?cs" by (simp add: confidence_trial_def)
  have 2: "stimulus ?tr = None" by simp
  have 3: "length (buttons_of ?tr ?cs) = length ?cs"
    by (simp add: confidence_trial_def info_defaults_def buttons_of_def)
  show ?thesis
    using 0 1 2 3
      missing_fields_throw [where tr = "confidence_trial\<lparr>choices := None\<rparr>"
        and d = empty_page and now = 1000 and cs = "[]"]
      missing_fields_throw [where tr = ?tr and cs = ?cs and d = empty_page and now = 1000]
    by (simp only: simp_thms)
qed

subsection \<open>Claim C10\<close>

text \<open>
  Claim C10. Run the same trial twice, on the same page, at the same time and with the
  same events, once with the drawing function \<open>g\<close> and once with \<open>f\<close>, whatever the two
  return. The records handed to the completion sink are the same but for the field that
  holds the drawing function itself. Rendering stores what the drawing function returns
  in \<open>stimulus_properties\<close> of the response, and the record that \<^verbatim>\<open>end_trial\<close> hands over is
  made of the response's reaction time, the trial's drawing function and the response's
  button: \<open>stimulus_properties\<close> is not read.
\<close>

theorem drawing_result_not_in_trial_data:
  "finished (run es (snd (plugin_trial d (tr\<lparr>stimulus := Some f\<rparr>) now)))
     = map (\<lambda>x. x\<lparr>td_stimulus := Some f\<rparr>)
         (finished (run es (snd (plugin_trial d (tr\<lparr>stimulus := Some g\<rparr>) now))))
   \<and> stimulus_properties (response (snd (plugin_trial d
        (tr\<lparr>stimulus := Some f, choices := Some cs, button_html := Shared b\<rparr>) now)))
     = Some (f (canvas_id_of tr))
   \<and> finished (end_trial s)
     = finished s @ [\<lparr>td_rt = rt (response s), td_stimulus = stimulus (trial s),
                      td_button_pressed = button (response s)\<rparr>]"
proof (intro conjI)
  from plugin_trial_with_stimulus [where d = d and tr = tr and f = f and now = now and g = g]
  obtain q where "snd (plugin_trial d (tr\<lparr>stimulus := Some f\<rparr>) now)
        = with_stimulus (Some f) q (snd (plugin_trial d (tr\<lparr>stimulus := Some g\<rparr>) now))" ..
  then show "finished (run es (snd (plugin_trial d (tr\<lparr>stimulus := Some f\<rparr>) now)))
     = map (\<lambda>x. x\<lparr>td_stimulus := Some f\<rparr>)
         (finished (run es (snd (plugin_trial d (tr\<lparr>stimulus := Some g\<rparr>) now))))"
    by (simp add: run_with_stimulus finished_with_stimulus)
next
  let ?tr = "tr\<lparr>stimulus := Some f, choices := Some cs, button_html := Shared b\<rparr>"
  have 1: "choices ?tr = Some cs" by simp
  have 2: "stimulus ?tr = Some f" by simp
  have 3: "length (buttons_of ?tr cs) = length cs" by (simp add: buttons_of_def)
  have "canvas_id_of ?tr = canvas_id_of tr" by (simp add: canvas_id_of_def)
  then show "stimulus_properties (response (snd (plugin_trial d ?tr now))) = Some (f (canvas_id_of tr))"
    by (simp add: rendered_fields(3) [OF 1 2 3])
next
  show "finished (end_trial s)
     = finished s @ [\<lparr>td_rt = rt (response s), td_stimulus = stimulus (trial s),
                      td_button_pressed = button (response s)\<rparr>]"
    by (simp add: end_trial_eq finished_def)
qed

end
